theory Spec2Isabelle
  imports Main "HOL-Library.Sublist" "HOL-Library.AList"
begin

section \<open>Exceptions\<close>

text \<open>
  Every \<^verbatim>\<open>raise\<close> of the executor becomes a value of \<open>exn\<close>. The payload of a
  \<^verbatim>\<open>WorkflowError\<close> is kept structured (the formatted message is a function of
  it): one constructor per raise site of \<^verbatim>\<open>__init__.py\<close>, and \<open>Wrapped\<close> for
  \<^verbatim>\<open>WorkflowError(ex)\<close> in \<^verbatim>\<open>_retry_request\<close>. \<open>HttpError\<close> carries the HTTP status
  and the response content.
\<close>

datatype exn =
    HttpError int string
  | BrokenPipeError
  | FileNotFoundError string
  | AttributeError string
  | UnboundLocalError string
  | KeyError string
  | TypeError string
  | WorkflowError wf_message
and wf_message =
    Wrapped exn
  | NoMemoryResource
  | NoDiskResource
  | PrefixTooStrict string
  | ResourcesUnsatisfiable int int int int
  | GroupNotHomogeneous
  | NoAcceleratorForModel string string
  | NoAccelerator string
  | SourceOutsideWorkdir string string

section \<open>Strings and paths\<close>

text \<open>\<^verbatim>\<open>s.startswith(p)\<close> is \<^term>\<open>prefix p s\<close>; \<^verbatim>\<open>sub in s\<close> on strings is the
  search for a contiguous occurrence.\<close>

fun contains :: "string \<Rightarrow> string \<Rightarrow> bool" where
  "contains sub [] = (sub = [])"
| "contains sub (c # cs) = (prefix sub (c # cs) \<or> contains sub cs)"

text \<open>\<^verbatim>\<open>s.endswith(p)\<close>.\<close>

definition endswith :: "string \<Rightarrow> string \<Rightarrow> bool" where
  "endswith s p = suffix p s"

text \<open>\<^verbatim>\<open>s.replace(old, new)\<close> for a non-empty \<open>old\<close>: every non-overlapping occurrence,
  from the left. The executor only calls it with \<^verbatim>\<open>workdir + os.path.sep\<close>, which is
  never empty; for an empty \<open>old\<close> the model returns the string unchanged.\<close>

function str_replace :: "string \<Rightarrow> string \<Rightarrow> string \<Rightarrow> string" where
  "str_replace old new [] = []"
| "str_replace old new (c # cs) =
     (if old \<noteq> [] \<and> prefix old (c # cs)
      then new @ str_replace old new (drop (length old) (c # cs))
      else c # str_replace old new cs)"
  by pat_completeness auto
termination
  by (relation "measure (\<lambda>(old, new, s). length s)") auto

text \<open>\<^verbatim>\<open>os.path.join(a, b)\<close> and \<^verbatim>\<open>os.path.basename(p)\<close> on POSIX paths.\<close>

definition path_join :: "string \<Rightarrow> string \<Rightarrow> string" where
  "path_join a b =
     (if prefix ''/'' b then b
      else if a = [] \<or> last a = CHR ''/'' then a @ b
      else a @ ''/'' @ b)"

definition basename :: "string \<Rightarrow> string" where
  "basename p = rev (takeWhile (\<lambda>c. c \<noteq> CHR ''/'') (rev p))"

section \<open>The retry wrapper\<close>

text \<open>
  A request object is modelled by the outcomes of its successive \<^verbatim>\<open>execute()\<close> calls:
  \<open>request k\<close> is what the \<open>k\<close>-th call returns or raises. The wrapper's state is the log
  of the durations passed to \<^verbatim>\<open>time.sleep\<close>, oldest first.

  \<^verbatim>\<open>
  def _retry_request(self, request, timeout=2, attempts=3):
      try:
          return request.execute()
      except Exception as ex:
          if attempts > 0:
              time.sleep(timeout)
              return self._retry_request(
                  request, timeout=timeout * 2, attempts=attempts - 1)
          raise WorkflowError(ex)
  \<close>
\<close>

type_synonym 'a request = "nat \<Rightarrow> exn + 'a"

function retry_request :: "'a request \<Rightarrow> int \<Rightarrow> int \<Rightarrow> int list \<Rightarrow> (exn + 'a) \<times> int list" where
  "retry_request request timeout attempts slept =
     (case request 0 of
        Inr v \<Rightarrow> (Inr v, slept)
      | Inl ex \<Rightarrow>
          if attempts > 0
          then retry_request (\<lambda>k. request (Suc k)) (timeout * 2) (attempts - 1) (slept @ [timeout])
          else (Inl (WorkflowError (Wrapped ex)), slept))"
  by pat_completeness auto
termination
  by (relation "measure (\<lambda>(request, timeout, attempts, slept). nat attempts)") auto

declare retry_request.simps [simp del]

text \<open>The call with the default arguments \<^verbatim>\<open>timeout=2, attempts=3\<close>.\<close>

definition retry_request_default :: "'a request \<Rightarrow> int list \<Rightarrow> (exn + 'a) \<times> int list" where
  "retry_request_default request slept = retry_request request 2 3 slept"

section \<open>Machine types\<close>

text \<open>An entry of the Compute Engine \<^verbatim>\<open>machineTypes.list\<close> response, with the keys the
  executor reads. A Python \<^verbatim>\<open>dict\<close> keeps insertion order, and the selection depends on
  it, so a dictionary from names to machine types is an association list:
  \<^term>\<open>AList.update\<close> is \<^verbatim>\<open>d[k] = v\<close> (in place for a known key, appended otherwise)
  and \<^term>\<open>AList.delete\<close> is \<^verbatim>\<open>del d[k]\<close>.\<close>

record machine_type =
  mt_name :: string
  guestCpus :: int
  memoryMb :: int
  mt_description :: string
  mt_zone :: string

type_synonym machine_types = "(string \<times> machine_type) list"

section \<open>Selecting a machine type\<close>

text \<open>Python truthiness of an optional string (\<^verbatim>\<open>None\<close> and \<^verbatim>\<open>""\<close> are falsy) and of an
  optional number (\<^verbatim>\<open>None\<close> and \<^verbatim>\<open>0\<close> are falsy): the truthy value, if any.\<close>

fun truthy_str :: "string option \<Rightarrow> string option" where
  "truthy_str (Some (c # cs)) = Some (c # cs)"
| "truthy_str _ = None"

fun truthy_int :: "int option \<Rightarrow> int option" where
  "truthy_int (Some n) = (if n = 0 then None else Some n)"
| "truthy_int None = None"

text \<open>
  The first pass of \<^verbatim>\<open>_generate_job_resources\<close> (lines 503-515): it keeps the machine
  types that are large enough and tracks the largest CPU count and memory seen.
  \<^verbatim>\<open>
  max_cpu = 1
  max_mem = 15360
  for name, machine_type in machine_types.items():
      max_cpu = max(max_cpu, machine_type["guestCpus"])
      max_mem = max(max_mem, machine_type["memoryMb"])
      if machine_type["guestCpus"] < cores or machine_type["memoryMb"] < mem_mb:
          continue
      keepers[name] = machine_type
  \<close>
\<close>

fun first_pass ::
  "int \<Rightarrow> int \<Rightarrow> machine_types \<Rightarrow> int \<times> int \<times> machine_types \<Rightarrow> int \<times> int \<times> machine_types" where
  "first_pass cores mem_mb [] acc = acc"
| "first_pass cores mem_mb ((name, machine_type) # rest) (max_cpu, max_mem, keepers) =
     first_pass cores mem_mb rest
       (max max_cpu (guestCpus machine_type),
        max max_mem (memoryMb machine_type),
        if guestCpus machine_type < cores \<or> memoryMb machine_type < mem_mb then keepers
        else AList.update name machine_type keepers)"

text \<open>The prefix filter (lines 517-523), run only for a truthy prefix.\<close>

fun prefix_pass :: "string \<Rightarrow> machine_types \<Rightarrow> machine_types \<Rightarrow> machine_types" where
  "prefix_pass p [] keepers = keepers"
| "prefix_pass p ((name, machine_type) # rest) keepers =
     prefix_pass p rest
       (if prefix p name then AList.update name machine_type keepers else keepers)"

text \<open>
  The search for the "(quasi) minimal" machine type (lines 555-562). The incumbent is
  the triple \<open>(smallest, min_cores, min_mem)\<close>.
  \<^verbatim>\<open>
  for name, machine_type in machine_types.items():
      if (machine_type["guestCpus"] < min_cores
              and machine_type["memoryMb"] < min_mem):
          smallest = name
          min_cores = machine_type["guestCpus"]
          min_mem = machine_type["memoryMb"]
  \<close>
\<close>

fun smallest_pass :: "machine_types \<Rightarrow> string \<times> int \<times> int \<Rightarrow> string \<times> int \<times> int" where
  "smallest_pass [] acc = acc"
| "smallest_pass ((name, machine_type) # rest) (smallest, min_cores, min_mem) =
     smallest_pass rest
       (if guestCpus machine_type < min_cores \<and> memoryMb machine_type < min_mem
        then (name, guestCpus machine_type, memoryMb machine_type)
        else (smallest, min_cores, min_mem))"

text \<open>
  Lines 503-567 of \<^verbatim>\<open>_generate_job_resources\<close> as one function of the requested cores
  and memory, the machine type prefix and the fetched machine types: the two filters,
  the two \<^verbatim>\<open>WorkflowError\<close>s for an empty candidate set, then the selection, started
  at the first candidate (\<^verbatim>\<open>list(machine_types.keys())[0]\<close>) and read back with
  \<^verbatim>\<open>machine_types[smallest]\<close>. The arguments of \<open>ResourcesUnsatisfiable\<close> are those of
  the message: requested memory, requested cores, largest memory, largest CPU count.
\<close>

definition select_machine_type ::
  "int \<Rightarrow> int \<Rightarrow> string option \<Rightarrow> machine_types \<Rightarrow> exn + string \<times> machine_type" where
  "select_machine_type cores mem_mb machine_type_prefix machine_types =
     (case first_pass cores mem_mb machine_types (1, 15360, []) of
        (max_cpu, max_mem, sized) \<Rightarrow>
          let keepers = (case truthy_str machine_type_prefix of
                           Some p \<Rightarrow> prefix_pass p sized []
                         | None \<Rightarrow> sized)
          in case keepers of
               [] \<Rightarrow>
                 (case truthy_str machine_type_prefix of
                    Some p \<Rightarrow> Inl (WorkflowError (PrefixTooStrict p))
                  | None \<Rightarrow>
                      Inl (WorkflowError (ResourcesUnsatisfiable mem_mb cores max_mem max_cpu)))
             | (first_name, first_type) # _ \<Rightarrow>
                 (case smallest_pass keepers
                         (first_name, guestCpus first_type, memoryMb first_type) of
                    (smallest, min_cores, min_mem) \<Rightarrow>
                      (case map_of keepers smallest of
                         Some selected \<Rightarrow> Inr (smallest, selected)
                       | None \<Rightarrow> Inl (KeyError smallest))))"

text \<open>The catalog of the specification's example: \<open>A\<close> with 2 CPUs and 4096 MB, \<open>B\<close> with
  4 CPUs and 8192 MB (description and zone play no role in the selection).\<close>

definition example_A :: machine_type where
  "example_A = \<lparr>mt_name = ''A'', guestCpus = 2, memoryMb = 4096,
                 mt_description = ''2 vCPUs, 4 GB RAM'', mt_zone = ''us-east1-b''\<rparr>"

definition example_B :: machine_type where
  "example_B = \<lparr>mt_name = ''B'', guestCpus = 4, memoryMb = 8192,
                 mt_description = ''4 vCPUs, 8 GB RAM'', mt_zone = ''us-east1-b''\<rparr>"

definition example_catalog :: machine_types where
  "example_catalog = [(''A'', example_A), (''B'', example_B)]"


section \<open>The executor, a job and the remote services\<close>

text \<open>
  A call of \<^verbatim>\<open>self.logger.debug\<close> appends one entry to the debug log. As for the
  errors, an entry keeps the values that the source formats into the text, one
  constructor per call site.
\<close>

datatype message =
    SkippingCleanup
  | DeletingBlob string
  | CheckingStatus string
  | EventDescription string
  | FailedAction string string
  | ExitMessage string string
  | GpuRequest int
  | MachineTypesFound nat "string list"
  | SelectedMachineType string string
  | BuildPackage string

type_synonym bytes = string

text \<open>
  The attributes of \<^verbatim>\<open>Executor\<close> that the modelled methods read or write, with the
  state they reach through it: \<open>default_resources\<close> is
  \<^verbatim>\<open>self.workflow.resource_settings.default_resources\<close>, \<open>aux_path\<close> is
  \<^verbatim>\<open>self.workflow.persistence.aux_path\<close>, \<open>bucket\<close> the blobs of \<^verbatim>\<open>self.bucket\<close> by
  name, \<open>local_files\<close> the local file system by path, \<open>slept\<close> the calls of
  \<^verbatim>\<open>time.sleep\<close>. \<open>uploads\<close> records every \<^verbatim>\<open>blob.upload_from_filename\<close>, by blob name.
  The source has two attributes for the prefix: \<^verbatim>\<open>self.machine_type_prefix\<close>, assigned by
  \<^verbatim>\<open>_generate_job_resources\<close>, and \<^verbatim>\<open>self._machine_type_prefix\<close>, touched only by
  \<^verbatim>\<open>_add_gpu\<close> and assigned nowhere else in the file: \<open>private_machine_type_prefix\<close> is
  \<open>None\<close> while the attribute does not exist, \<open>Some v\<close> once it holds \<open>v\<close>.
  \<^verbatim>\<open>_build_packages\<close> is a Python set; the list carries no duplicates and its order
  stands for the set's iteration order. \<open>preemptible_rules\<close> is the attribute
  \<^verbatim>\<open>self.preemptible_rules\<close> that lines 570-579 read: \<open>Some f\<close> when it holds a policy
  whose \<^verbatim>\<open>is_preemptible\<close> is \<open>f\<close>, \<open>None\<close> while the attribute does not exist.
  \<^verbatim>\<open>__init__\<close> assigns \<^verbatim>\<open>self.preemptible\<close> (line 129) and nothing in the file assigns
  \<^verbatim>\<open>self.preemptible_rules\<close>.
\<close>

record executor =
  regions :: "string list"
  workdir :: string
  workflow_sources :: "string list"
  aux_path :: string
  save_storage_cache :: bool
  build_packages :: "string list"
  pipeline_package :: "string option"
  machine_type_prefix :: "string option"
  private_machine_type_prefix :: "string option option"
  default_resources :: "string \<rightharpoonup> int"
  preemptible_rules :: "(string \<Rightarrow> bool) option"
  network :: "string option"
  subnetwork :: "string option"
  service_account_email :: "string option"
  bucket :: "string \<rightharpoonup> bytes"
  uploads :: "string list"
  local_files :: "string \<rightharpoonup> bytes"
  debug_log :: "message list"
  slept :: "int list"

definition debug :: "message \<Rightarrow> executor \<Rightarrow> executor" where
  "debug msg self = self\<lparr>debug_log := debug_log self @ [msg]\<rparr>"

text \<open>
  The resources of a job, by the keys \<^verbatim>\<open>_generate_job_resources\<close> looks up
  (\<^verbatim>\<open>_cores\<close>, \<^verbatim>\<open>mem_mb\<close>, \<^verbatim>\<open>disk_mb\<close>, \<^verbatim>\<open>nvidia_gpu\<close>, \<^verbatim>\<open>gpu\<close>, \<^verbatim>\<open>gpu_model\<close>,
  \<^verbatim>\<open>machine_type\<close>): \<open>None\<close> for an absent key. \<open>job_rules\<close> are the names of
  \<^verbatim>\<open>job.rules\<close>, \<open>job_rule_name\<close> is \<^verbatim>\<open>job.rule.name\<close>.
\<close>

record job_resources =
  res_cores :: "int option"
  res_mem_mb :: "int option"
  res_disk_mb :: "int option"
  res_nvidia_gpu :: "int option"
  res_gpu :: "int option"
  res_gpu_model :: "string option"
  res_machine_type :: "string option"

record job =
  resources :: job_resources
  job_is_group :: bool
  job_rules :: "string list"
  job_rule_name :: string

record accelerator =
  acc_name :: string
  maximumCardsPerInstance :: int

text \<open>
  The status of an operation. Keys that the source reads unconditionally are fields
  (\<^verbatim>\<open>event["description"]\<close>, \<^verbatim>\<open>action["code"]\<close>, \<^verbatim>\<open>action["exitStatus"]\<close>,
  \<^verbatim>\<open>status["metadata"]["events"]\<close>); keys it tests with \<^verbatim>\<open>in\<close> or reads with
  \<^verbatim>\<open>.get\<close> are optional fields.
\<close>

record failed_event =
  code :: string
  cause :: string

record unexpected_exit_status =
  exitStatus :: int
  stderr :: "string option"

record event =
  description :: string
  failed :: "failed_event option"
  unexpectedExitStatus :: "unexpected_exit_status option"

record status =
  status_done :: "bool option"
  events :: "event list"

text \<open>
  The requests that the Google API clients build: the zones of the project (the names of
  \<^verbatim>\<open>zones().list(...)["items"]\<close>), the machine types and the accelerator types of a zone
  (the latter read with \<^verbatim>\<open>.get("items", [])\<close>), the operation of a job.
\<close>

record remote =
  zones_list :: "string list request"
  machineTypes_list :: "string \<Rightarrow> machine_type list request"
  acceleratorTypes_list :: "string \<Rightarrow> accelerator list option request"
  operations_get :: "string \<Rightarrow> status request"

section \<open>The machine types available in the regions\<close>

text \<open>
  \<^verbatim>\<open>re.search("^(%s)" % "|".join(self.regions), z["name"])\<close>. Region names are taken
  literally (Google's are made of letters, digits and hyphens, none of them special in a
  regular expression), so the search succeeds when the zone name starts with one of the
  regions; with no region at all the pattern is \<^verbatim>\<open>^()\<close>, which every name matches.
\<close>

definition zone_in_regions :: "string list \<Rightarrow> string \<Rightarrow> bool" where
  "zone_in_regions rs zone_name = (rs = [] \<or> list_ex (\<lambda>r. prefix r zone_name) rs)"

text \<open>Lines 405-410: one request per zone, each through the retry wrapper.\<close>

fun fetch_machine_types ::
  "(string \<Rightarrow> machine_type list request) \<Rightarrow> string list \<Rightarrow> (string \<times> machine_type list) list \<Rightarrow>
   int list \<Rightarrow> (exn + (string \<times> machine_type list) list) \<times> int list" where
  "fetch_machine_types mt_list [] lookup sl = (Inr lookup, sl)"
| "fetch_machine_types mt_list (zone # zones) lookup sl =
     (case retry_request_default (mt_list zone) sl of
        (Inl ex, sl') \<Rightarrow> (Inl ex, sl')
      | (Inr items, sl') \<Rightarrow> fetch_machine_types mt_list zones (AList.update zone items lookup) sl')"

text \<open>
  Lines 418-424. The names of each remaining zone lose those with \<^verbatim>\<open>micro\<close> and those
  matching \<^verbatim>\<open>^(e2|m1)\<close>; every key of \<^verbatim>\<open>machine_types\<close> that is not among them goes to
  the set \<^verbatim>\<open>to_remove\<close>.
\<close>

definition zone_names :: "machine_type list \<Rightarrow> string list" where
  "zone_names types =
     filter (\<lambda>name. \<not> (prefix ''e2'' name \<or> prefix ''m1'' name))
       (filter (\<lambda>name. \<not> contains ''micro'' name) (map mt_name types))"

fun collect_to_remove ::
  "(string \<times> machine_type list) list \<Rightarrow> string list \<Rightarrow> string list \<Rightarrow> string list" where
  "collect_to_remove [] keys to_remove = to_remove"
| "collect_to_remove ((zone, types) # rest) keys to_remove =
     collect_to_remove rest keys
       (foldl (\<lambda>acc k. if k \<in> set (zone_names types) then acc else List.insert k acc)
          to_remove keys)"

text \<open>
  Lines 412-428 on the fetched \<open>lookup\<close>. After the loop of lines 406-410 the variable
  \<^verbatim>\<open>zone\<close> is the last zone; with no zone it was never bound.
\<close>

definition shared_machine_types ::
  "string list \<Rightarrow> (string \<times> machine_type list) list \<Rightarrow> exn + machine_types" where
  "shared_machine_types zones lookup =
     (if zones = [] then Inl (UnboundLocalError ''zone'')
      else (case map_of lookup (last zones) of
              None \<Rightarrow> Inl (KeyError (last zones))
            | Some base \<Rightarrow>
                (let machine_types = foldl (\<lambda>d mt. AList.update (mt_name mt) mt d) [] base;
                     others = AList.delete (last zones) lookup;
                     to_remove = collect_to_remove others (map fst machine_types) []
                 in Inr (foldl (\<lambda>d k. AList.delete k d) machine_types to_remove))))"

definition get_available_machine_types :: "remote \<Rightarrow> executor \<Rightarrow> (exn + machine_types) \<times> executor" where
  "get_available_machine_types rem self =
     (case retry_request_default (zones_list rem) (slept self) of
        (Inl ex, sl) \<Rightarrow> (Inl ex, self\<lparr>slept := sl\<rparr>)
      | (Inr all_zones, sl) \<Rightarrow>
          (let zones = filter (zone_in_regions (regions self)) all_zones
           in (case fetch_machine_types (machineTypes_list rem) zones [] sl of
                 (Inl ex, sl') \<Rightarrow> (Inl ex, self\<lparr>slept := sl'\<rparr>)
               | (Inr lookup, sl') \<Rightarrow> (shared_machine_types zones lookup, self\<lparr>slept := sl'\<rparr>))))"


section \<open>Planning the resources of a job\<close>

text \<open>
  \<^verbatim>\<open>
  def _add_gpu(self, gpu_count):
      if not gpu_count or gpu_count == 0:
          return
      self.logger.debug(...)
      self.workflow.resource_settings.default_resources.set_resource(
          "nvidia_gpu", gpu_count)
      self._machine_type_prefix = self._machine_type_prefix or ""
      if not self._machine_type_prefix.startswith("n1"):
          self._machine_type_prefix = "n1"
  \<close>
  Reading \<^verbatim>\<open>self._machine_type_prefix\<close> while the attribute does not exist raises
  \<^verbatim>\<open>AttributeError\<close>, after the default resources were set.
\<close>

definition add_gpu :: "int option \<Rightarrow> executor \<Rightarrow> (exn + unit) \<times> executor" where
  "add_gpu gpu_count self =
     (case truthy_int gpu_count of
        None \<Rightarrow> (Inr (), self)
      | Some n \<Rightarrow>
          (let self1 = (debug (GpuRequest n) self)
                         \<lparr>default_resources := (default_resources self)(''nvidia_gpu'' \<mapsto> n)\<rparr>
           in (case private_machine_type_prefix self1 of
                 None \<Rightarrow> (Inl (AttributeError ''_machine_type_prefix''), self1)
               | Some v \<Rightarrow>
                   (let p = (case truthy_str v of Some t \<Rightarrow> t | None \<Rightarrow> [])
                    in (Inr (), self1\<lparr>private_machine_type_prefix :=
                                        Some (Some (if prefix ''n1'' p then p else ''n1''))\<rparr>)))))"

text \<open>
  \<^verbatim>\<open>_get_accelerator\<close>, lines 631-640: the accelerators that are not virtual workstations,
  match the requested model if there is one, and carry enough cards.
\<close>

fun accelerator_keepers ::
  "int \<Rightarrow> string option \<Rightarrow> accelerator list \<Rightarrow> (string \<times> accelerator) list \<Rightarrow> (string \<times> accelerator) list" where
  "accelerator_keepers gpu_count gpu_model [] keepers = keepers"
| "accelerator_keepers gpu_count gpu_model (a # rest) keepers =
     accelerator_keepers gpu_count gpu_model rest
       (if (case truthy_str gpu_model of Some g \<Rightarrow> acc_name a \<noteq> g | None \<Rightarrow> False)
           \<or> endswith (acc_name a) ''vws''
        then keepers
        else if maximumCardsPerInstance a \<ge> gpu_count then AList.update (acc_name a) a keepers
        else keepers)"

text \<open>Lines 661-664: the first accelerator with the fewest cards.\<close>

fun smallest_accelerator :: "(string \<times> accelerator) list \<Rightarrow> string \<times> int \<Rightarrow> string \<times> int" where
  "smallest_accelerator [] acc = acc"
| "smallest_accelerator ((name, a) # rest) (smallest, max_gpu) =
     smallest_accelerator rest
       (if maximumCardsPerInstance a < max_gpu then (name, maximumCardsPerInstance a)
        else (smallest, max_gpu))"

definition get_accelerator ::
  "remote \<Rightarrow> int option \<Rightarrow> string \<Rightarrow> string option \<Rightarrow> executor \<Rightarrow> (exn + accelerator option) \<times> executor" where
  "get_accelerator rem gpu_count zone gpu_model self =
     (case truthy_int gpu_count of
        None \<Rightarrow> (Inr None, self)
      | Some n \<Rightarrow>
          (case retry_request_default (acceleratorTypes_list rem zone) (slept self) of
             (Inl ex, sl) \<Rightarrow> (Inl ex, self\<lparr>slept := sl\<rparr>)
           | (Inr accelerators, sl) \<Rightarrow>
               (let items = (case accelerators of Some xs \<Rightarrow> xs | None \<Rightarrow> []);
                    keepers = accelerator_keepers n gpu_model items []
                in (case keepers of
                      [] \<Rightarrow>
                        (case truthy_str gpu_model of
                           Some g \<Rightarrow> (Inl (WorkflowError (NoAcceleratorForModel zone g)),
                                      self\<lparr>slept := sl\<rparr>)
                         | None \<Rightarrow> (Inl (WorkflowError (NoAccelerator zone)), self\<lparr>slept := sl\<rparr>))
                    | (first_name, first_acc) # _ \<Rightarrow>
                        (let smallest = fst (smallest_accelerator keepers
                                               (first_name, maximumCardsPerInstance first_acc))
                         in (case map_of keepers smallest of
                               Some a \<Rightarrow> (Inr (Some a), self\<lparr>slept := sl\<rparr>)
                             | None \<Rightarrow> (Inl (KeyError smallest), self\<lparr>slept := sl\<rparr>)))))))"

text \<open>The \<^verbatim>\<open>resources\<close> dictionary that \<^verbatim>\<open>_generate_job_resources\<close> returns. The
  network is \<open>(network, usePrivateAddress, subnetwork)\<close>, the service account
  \<open>(email, scopes)\<close>, an accelerator \<open>(type, count)\<close>.\<close>

record virtual_machine =
  machineType :: string
  labels :: "(string \<times> string) list"
  bootDiskSizeGb :: int
  preemptible :: bool
  vm_network :: "(string \<times> bool \<times> string) option"
  vm_service_account :: "(string \<times> string list) option"
  vm_accelerators :: "(string \<times> int) list option"

record job_plan =
  plan_regions :: "string list"
  virtualMachine :: virtual_machine

text \<open>Lines 477-483: \<^verbatim>\<open>job.resources.get("nvidia_gpu") or job.resources.get("gpu")\<close>, and
  one GPU for a model given without a count.\<close>

definition requested_gpu_count :: "job_resources \<Rightarrow> int option" where
  "requested_gpu_count r =
     (let gpu_count = (case truthy_int (res_nvidia_gpu r) of Some n \<Rightarrow> Some n | None \<Rightarrow> res_gpu r)
      in if truthy_str (res_gpu_model r) \<noteq> None \<and> truthy_int gpu_count = None then Some 1
         else gpu_count)"

text \<open>
  Lines 569-579: the preemptible flag, which a group must agree on.
  \<^verbatim>\<open>
  if job.is_group():
      preemptible = all(self.preemptible_rules.is_preemptible(rule.name) for rule in job.rules)
      if not preemptible and any(
          self.preemptible_rules.is_preemptible(rule.name) for rule in job.rules
      ):
          raise WorkflowError(...)
  else:
      preemptible = self.preemptible_rules.is_preemptible(job.rule.name)
  \<close>
  The attribute is read once per rule of a group, so a group without rules gets \<^verbatim>\<open>True\<close>
  without reading it; every other job reads it, and raises \<^verbatim>\<open>AttributeError\<close> while it
  does not exist.
\<close>

definition job_preemptible :: "job \<Rightarrow> executor \<Rightarrow> exn + bool" where
  "job_preemptible j self =
     (if job_is_group j \<and> job_rules j = [] then Inr True
      else (case preemptible_rules self of
              None \<Rightarrow> Inl (AttributeError ''preemptible_rules'')
            | Some is_preemptible \<Rightarrow>
                (if job_is_group j
                 then (if \<not> list_all is_preemptible (job_rules j)
                          \<and> list_ex is_preemptible (job_rules j)
                       then Inl (WorkflowError GroupNotHomogeneous)
                       else Inr (list_all is_preemptible (job_rules j)))
                 else Inr (is_preemptible (job_rule_name j)))))"

text \<open>Lines 581-601: the virtual machine without accelerators. \<^verbatim>\<open>math.ceil(disk_mb / 1024)\<close>
  is the integer ceiling of the quotient.\<close>

definition make_virtual_machine :: "string \<Rightarrow> int \<Rightarrow> bool \<Rightarrow> executor \<Rightarrow> virtual_machine" where
  "make_virtual_machine smallest disk_mb preempt self =
     \<lparr>machineType = smallest,
      labels = [(''app'', ''snakemake'')],
      bootDiskSizeGb = - ((- disk_mb) div 1024) + 10,
      preemptible = preempt,
      vm_network =
        (case (truthy_str (network self), truthy_str (subnetwork self)) of
           (Some n, Some sn) \<Rightarrow> Some (n, False, sn)
         | _ \<Rightarrow> None),
      vm_service_account =
        (case truthy_str (service_account_email self) of
           Some e \<Rightarrow> Some (e, [''https://www.googleapis.com/auth/cloud-platform''])
         | None \<Rightarrow> None),
      vm_accelerators = None\<rparr>"

text \<open>Lines 603-613: the accelerator of a GPU job, looked up in the zone of the selected
  machine type, and the result.\<close>

definition finish_plan ::
  "remote \<Rightarrow> int option \<Rightarrow> string option \<Rightarrow> machine_type \<Rightarrow> virtual_machine \<Rightarrow> executor \<Rightarrow>
   (exn + job_plan) \<times> executor" where
  "finish_plan rem gpu_count gpu_model selected vm self =
     (case truthy_int gpu_count of
        None \<Rightarrow> (Inr \<lparr>plan_regions = regions self, virtualMachine = vm\<rparr>, self)
      | Some n \<Rightarrow>
          (case get_accelerator rem gpu_count (mt_zone selected) gpu_model self of
             (Inl ex, self1) \<Rightarrow> (Inl ex, self1)
           | (Inr None, self1) \<Rightarrow> (Inl (TypeError ''accelerator''), self1)
           | (Inr (Some a), self1) \<Rightarrow>
               (Inr \<lparr>plan_regions = regions self1,
                     virtualMachine = vm\<lparr>vm_accelerators := Some [(acc_name a, n)]\<rparr>\<rparr>, self1)))"

text \<open>Lines 486-567: the prefix is taken from the job, a GPU job goes through
  \<^verbatim>\<open>_add_gpu\<close>, the machine types are fetched and one is selected.\<close>

definition select_for_job ::
  "remote \<Rightarrow> int \<Rightarrow> int \<Rightarrow> int option \<Rightarrow> job \<Rightarrow> executor \<Rightarrow> (exn + string \<times> machine_type) \<times> executor" where
  "select_for_job rem cores mem_mb gpu_count j self =
     (let self1 = self\<lparr>machine_type_prefix := res_machine_type (resources j)\<rparr>
      in (case (if truthy_int gpu_count \<noteq> None then add_gpu gpu_count self1 else (Inr (), self1)) of
            (Inl ex, self2) \<Rightarrow> (Inl ex, self2)
          | (Inr u, self2) \<Rightarrow>
              (case get_available_machine_types rem self2 of
                 (Inl ex, self3) \<Rightarrow> (Inl ex, self3)
               | (Inr machine_types, self3) \<Rightarrow>
                   (let self4 = debug (MachineTypesFound (length machine_types) (regions self3)) self3
                    in (case select_machine_type cores mem_mb (machine_type_prefix self4) machine_types of
                          Inl ex \<Rightarrow> (Inl ex, self4)
                        | Inr (smallest, selected) \<Rightarrow>
                            (Inr (smallest, selected),
                             debug (SelectedMachineType smallest (mt_description selected)) self4))))))"

text \<open>\<^verbatim>\<open>_generate_job_resources\<close>, lines 452-613.\<close>

definition generate_job_resources :: "remote \<Rightarrow> job \<Rightarrow> executor \<Rightarrow> (exn + job_plan) \<times> executor" where
  "generate_job_resources rem j self =
     (let cores = (case res_cores (resources j) of Some c \<Rightarrow> c | None \<Rightarrow> 1)
      in (case res_mem_mb (resources j) of
            None \<Rightarrow> (Inl (WorkflowError NoMemoryResource), self)
          | Some mem_mb \<Rightarrow>
              (case res_disk_mb (resources j) of
                 None \<Rightarrow> (Inl (WorkflowError NoDiskResource), self)
               | Some disk_mb \<Rightarrow>
                   (let gpu_count = requested_gpu_count (resources j)
                    in (case select_for_job rem cores mem_mb gpu_count j self of
                          (Inl ex, self1) \<Rightarrow> (Inl ex, self1)
                        | (Inr (smallest, selected), self1) \<Rightarrow>
                            (case job_preemptible j self1 of
                               Inl ex \<Rightarrow> (Inl ex, self1)
                             | Inr preempt \<Rightarrow>
                                 finish_plan rem gpu_count (res_gpu_model (resources j)) selected
                                   (make_virtual_machine smallest disk_mb preempt self1) self1))))))"


section \<open>Polling the active jobs\<close>

text \<open>
  The loop of \<^verbatim>\<open>_job_was_successful\<close> over \<^verbatim>\<open>status["metadata"]["events"]\<close>, on the
  pair of the flag \<^verbatim>\<open>success\<close> and the debug log.
  \<^verbatim>\<open>
  for event in status["metadata"]["events"]:
      self.logger.debug(event["description"])
      if "failed" in event:
          success = False
          action = event.get("failed")
          self.logger.debug("{}: {}".format(action["code"], action["cause"]))
      elif "unexpectedExitStatus" in event:
          action = event.get("unexpectedExitStatus")
          if action["exitStatus"] != 0:
              success = False
              msg = "%s" % event["description"]
              if "stderr" in action:
                  msg += ": %s" % action["stderr"]
                  self.logger.debug(msg)
  return success
  \<close>
\<close>

fun events_pass :: "event list \<Rightarrow> bool \<times> message list \<Rightarrow> bool \<times> message list" where
  "events_pass [] acc = acc"
| "events_pass (e # rest) (success, log) =
     events_pass rest
       (case failed e of
          Some action \<Rightarrow>
            (False, log @ [EventDescription (description e), FailedAction (code action) (cause action)])
        | None \<Rightarrow>
            (case unexpectedExitStatus e of
               Some action \<Rightarrow>
                 (if exitStatus action \<noteq> 0
                  then (False,
                        (case stderr action of
                           Some err \<Rightarrow> log @ [EventDescription (description e),
                                                ExitMessage (description e) err]
                         | None \<Rightarrow> log @ [EventDescription (description e)]))
                  else (success, log @ [EventDescription (description e)]))
             | None \<Rightarrow> (success, log @ [EventDescription (description e)])))"

definition job_was_successful :: "status \<Rightarrow> executor \<Rightarrow> bool \<times> executor" where
  "job_was_successful st self =
     (case events_pass (events st) (True, debug_log self) of
        (success, log) \<Rightarrow> (success, self\<lparr>debug_log := log\<rparr>))"

text \<open>
  An active job. The object that \<^verbatim>\<open>run_job\<close> builds (lines 240-262) has the attributes
  \<^verbatim>\<open>job\<close>, \<^verbatim>\<open>external_jobid\<close> and \<^verbatim>\<open>aux\<close> (here \<open>external_jobname\<close> is
  \<^verbatim>\<open>aux["external_jobname"]\<close>), and \<^verbatim>\<open>cancel_jobs\<close> reads these. \<^verbatim>\<open>check_active_jobs\<close>
  reads \<^verbatim>\<open>j.jobname\<close> and \<^verbatim>\<open>j.jobid\<close> instead: \<open>jobname\<close> and \<open>jobid\<close> are \<open>None\<close> while
  the object has no such attribute.
  \<^verbatim>\<open>
  jobid = result["name"].split("/")[-1]
  job_info = SubmittedJobInfo(
      job=job, external_jobid=jobid, aux={"external_jobname": result["name"]})
  \<close>
\<close>

record submitted_job =
  external_jobid :: string
  external_jobname :: string
  jobname :: "string option"
  jobid :: "string option"

definition submitted_job_info :: "string \<Rightarrow> submitted_job" where
  "submitted_job_info result_name =
     \<lparr>external_jobid = basename result_name, external_jobname = result_name,
      jobname = None, jobid = None\<rparr>"

text \<open>What the polling tells the scheduler about a job: \<^verbatim>\<open>j.error_callback(j.job)\<close>,
  \<^verbatim>\<open>self.report_job_error(j, msg=...)\<close>, \<^verbatim>\<open>self.report_job_success(j)\<close> or \<^verbatim>\<open>yield j\<close>;
  the job is named by its \<open>external_jobid\<close>.\<close>

datatype report_message = NoMessage | Content string | ErrorText exn

datatype job_report =
    ErrorCallback string
  | ReportError string report_message
  | ReportSuccess string
  | StillRunning string

text \<open>
  Lines 286-305, the request and the \<^verbatim>\<open>try\<close> statement of one iteration: it either
  leaves the iteration with \<^verbatim>\<open>continue\<close>, or goes on to line 307 with the variable
  \<^verbatim>\<open>status\<close> (which keeps its value of the iteration before when the request failed, and
  is unbound before the first assignment), or raises. Line 287 reads \<^verbatim>\<open>j.jobname\<close> and
  line 288 reads \<^verbatim>\<open>j.jobid\<close>, each raising \<^verbatim>\<open>AttributeError\<close> on an object without the
  attribute. \<^verbatim>\<open>ex["content"]\<close> is taken to be the content of the response.
\<close>

datatype try_outcome =
    Continue "job_report list"
  | Proceed "status option" "job_report list"
  | Raised exn

definition query_status ::
  "remote \<Rightarrow> submitted_job \<Rightarrow> status option \<Rightarrow> executor \<Rightarrow> try_outcome \<times> executor" where
  "query_status rem j st self =
     (case jobname j of
        None \<Rightarrow> (Raised (AttributeError ''jobname''), self)
      | Some name \<Rightarrow>
          (case jobid j of
             None \<Rightarrow> (Raised (AttributeError ''jobid''), self)
           | Some i \<Rightarrow>
               (case retry_request_default (operations_get rem name)
                       (slept (debug (CheckingStatus i) self)) of
                  (Inr st', sl) \<Rightarrow>
                    (Proceed (Some st') [], (debug (CheckingStatus i) self)\<lparr>slept := sl\<rparr>)
                | (Inl ex, sl) \<Rightarrow>
                    (case ex of
                       HttpError c content \<Rightarrow>
                         (if c = 404 then Continue [ErrorCallback (external_jobid j)]
                          else if c = 500
                          then Proceed st [ReportError (external_jobid j) (Content content)]
                          else Proceed st [],
                          (debug (CheckingStatus i) self)\<lparr>slept := sl\<rparr>)
                     | WorkflowError m \<Rightarrow>
                         (Continue [ReportError (external_jobid j) (ErrorText (WorkflowError m))],
                          (debug (CheckingStatus i) self)\<lparr>slept := sl\<rparr>)
                     | _ \<Rightarrow> (Raised ex, (debug (CheckingStatus i) self)\<lparr>slept := sl\<rparr>)))))"

text \<open>Lines 307-316: a finished operation is reported, a running one is yielded.\<close>

definition report_status :: "submitted_job \<Rightarrow> status \<Rightarrow> executor \<Rightarrow> job_report \<times> executor" where
  "report_status j st self =
     (if status_done st = Some True
      then (case job_was_successful st self of
              (success, self1) \<Rightarrow>
                (if success then ReportSuccess (external_jobid j)
                 else ReportError (external_jobid j) NoMessage, self1))
      else (StillRunning (external_jobid j), self))"

text \<open>\<^verbatim>\<open>check_active_jobs\<close>: the exception that ended the loop, if any, the reports in
  their order, and the executor. The loop starts with \<^verbatim>\<open>status\<close> unbound.\<close>

fun check_active_jobs_from ::
  "remote \<Rightarrow> submitted_job list \<Rightarrow> status option \<Rightarrow> executor \<Rightarrow> exn option \<times> job_report list \<times> executor" where
  "check_active_jobs_from rem [] st self = (None, [], self)"
| "check_active_jobs_from rem (j # rest) st self =
     (case query_status rem j st self of
        (Raised ex, self1) \<Rightarrow> (Some ex, [], self1)
      | (Continue rs, self1) \<Rightarrow>
          (case check_active_jobs_from rem rest st self1 of
             (e, rs', self2) \<Rightarrow> (e, rs @ rs', self2))
      | (Proceed None rs, self1) \<Rightarrow> (Some (UnboundLocalError ''status''), rs, self1)
      | (Proceed (Some st') rs, self1) \<Rightarrow>
          (case report_status j st' self1 of
             (r, self2) \<Rightarrow>
               (case check_active_jobs_from rem rest (Some st') self2 of
                  (e, rs', self3) \<Rightarrow> (e, rs @ r # rs', self3))))"

definition check_active_jobs ::
  "remote \<Rightarrow> submitted_job list \<Rightarrow> executor \<Rightarrow> exn option \<times> job_report list \<times> executor" where
  "check_active_jobs rem active_jobs self = check_active_jobs_from rem active_jobs None self"

section \<open>The source package\<close>

text \<open>
  What the executor takes from the standard library: \<^verbatim>\<open>os.path.realpath\<close>,
  \<^verbatim>\<open>tempfile.gettempdir()\<close>, the bytes that \<^verbatim>\<open>tarfile\<close> writes for an archive opened
  at a path with the given members (archive name and content, in order), and the hex
  digest of \<^verbatim>\<open>hashlib.sha256\<close>.
\<close>

record platform =
  realpath :: "string \<Rightarrow> string"
  tempdir :: string
  targz_bytes :: "string \<Rightarrow> (string \<times> bytes) list \<Rightarrow> bytes"
  sha256_hexdigest :: "bytes \<Rightarrow> string"

text \<open>Lines 695-705: the first source file whose real path does not contain the working
  directory (\<^verbatim>\<open>self.workdir not in os.path.realpath(filename)\<close>).\<close>

fun first_outside :: "(string \<Rightarrow> string) \<Rightarrow> string \<Rightarrow> string list \<Rightarrow> string option" where
  "first_outside rp wd [] = None"
| "first_outside rp wd (filename # rest) =
     (if \<not> contains wd (rp filename) then Some filename else first_outside rp wd rest)"

text \<open>Lines 713-715: the members of the archive; \<^verbatim>\<open>tar.add\<close> of a missing file raises.\<close>

fun archive_members :: "(string \<rightharpoonup> bytes) \<Rightarrow> string \<Rightarrow> string list \<Rightarrow> exn + (string \<times> bytes) list" where
  "archive_members files wd [] = Inr []"
| "archive_members files wd (filename # rest) =
     (case files filename of
        None \<Rightarrow> Inl (FileNotFoundError filename)
      | Some content \<Rightarrow>
          (case archive_members files wd rest of
             Inl ex \<Rightarrow> Inl ex
           | Inr members \<Rightarrow> Inr ((str_replace (wd @ ''/'') [] filename, content) # members)))"

text \<open>
  \<^verbatim>\<open>_generate_build_source_package\<close>; \<open>tmpname\<close> is the name drawn from
  \<^verbatim>\<open>tempfile._get_candidate_names()\<close>. The archive is written to the temporary path,
  hashed, then moved to \<^verbatim>\<open>workdir-<sha256>.tar.gz\<close> under \<open>aux_path\<close> unless that file
  exists, in which case the temporary file is removed. (A missing source file leaves a
  partial archive at the temporary path, which the model does not keep.)
\<close>

definition generate_build_source_package ::
  "platform \<Rightarrow> string \<Rightarrow> executor \<Rightarrow> (exn + string) \<times> executor" where
  "generate_build_source_package pf tmpname self =
     (case first_outside (realpath pf) (workdir self) (workflow_sources self) of
        Some filename \<Rightarrow>
          (Inl (WorkflowError (SourceOutsideWorkdir (workdir self) filename)), self)
      | None \<Rightarrow>
          (case archive_members (local_files self) (workdir self) (workflow_sources self) of
             Inl ex \<Rightarrow> (Inl ex, self)
           | Inr members \<Rightarrow>
               (let targz = path_join (tempdir pf) (''snakemake-'' @ tmpname @ ''.tar.gz'');
                    archive = targz_bytes pf targz members;
                    files1 = (local_files self)(targz \<mapsto> archive);
                    hash_tar = path_join (aux_path self)
                                 (''workdir-'' @ sha256_hexdigest pf archive @ ''.tar.gz'');
                    files2 = (if files1 hash_tar = None
                              then files1(targz := None, hash_tar \<mapsto> archive)
                              else files1(targz := None))
                in (Inr hash_tar,
                    self\<lparr>local_files := files2,
                         build_packages := List.insert hash_tar (build_packages self)\<rparr>))))"

text \<open>
  \<^verbatim>\<open>_upload_build_source_package\<close>: the blob is \<^verbatim>\<open>source/cache/\<close> followed by the base
  name of the package, uploaded only if no blob of that name exists. The calls of the
  storage client are modelled as succeeding, so \<^verbatim>\<open>retry.Retry\<close> runs the body once.
\<close>

definition upload_build_source_package :: "string \<Rightarrow> executor \<Rightarrow> (exn + unit) \<times> executor" where
  "upload_build_source_package targz self =
     (let self1 = debug (BuildPackage (''source/cache/'' @ basename targz))
                    (self\<lparr>pipeline_package := Some (''source/cache/'' @ basename targz)\<rparr>)
      in (case bucket self1 (''source/cache/'' @ basename targz) of
            Some blob \<Rightarrow> (Inr (), self1)
          | None \<Rightarrow>
              (case local_files self1 targz of
                 None \<Rightarrow> (Inl (FileNotFoundError targz), self1)
               | Some content \<Rightarrow>
                   (Inr (),
                    self1\<lparr>bucket := (bucket self1)(''source/cache/'' @ basename targz \<mapsto> content),
                          uploads := uploads self1 @ [''source/cache/'' @ basename targz]\<rparr>))))"

text \<open>Lines 174-176 of \<^verbatim>\<open>__init__\<close>: the package is built and uploaded once per executor.\<close>

definition init_build_package :: "platform \<Rightarrow> string \<Rightarrow> executor \<Rightarrow> (exn + string) \<times> executor" where
  "init_build_package pf tmpname self =
     (case generate_build_source_package pf tmpname (self\<lparr>build_packages := []\<rparr>) of
        (Inl ex, self1) \<Rightarrow> (Inl ex, self1)
      | (Inr targz, self1) \<Rightarrow>
          (case upload_build_source_package targz self1 of
             (Inl ex, self2) \<Rightarrow> (Inl ex, self2)
           | (Inr u, self2) \<Rightarrow> (Inr targz, self2)))"

text \<open>
  \<^verbatim>\<open>
  def _shutdown():
      if self._save_storage_cache:
          self.logger.debug("Requested to save workflow sources, skipping cleanup.")
      else:
          for package in self._build_packages:
              blob = self.bucket.blob(package)
              if blob.exists():
                  self.logger.debug("Deleting blob %s" % package)
                  blob.delete()
  \<close>
  (\<^verbatim>\<open>super().shutdown()\<close> belongs to the executor interface and is not part of the model.)
\<close>

fun delete_packages :: "string list \<Rightarrow> executor \<Rightarrow> executor" where
  "delete_packages [] self = self"
| "delete_packages (package # rest) self =
     delete_packages rest
       (case bucket self package of
          Some blob \<Rightarrow> (debug (DeletingBlob package) self)\<lparr>bucket := (bucket self)(package := None)\<rparr>
        | None \<Rightarrow> self)"

definition shutdown :: "executor \<Rightarrow> executor" where
  "shutdown self =
     (if save_storage_cache self then debug SkippingCleanup self
      else delete_packages (build_packages self) self)"


section \<open>Concrete inputs\<close>

text \<open>An executor right after its attributes were set, with one source file, and a project
  with one zone in the region.\<close>

definition example_executor :: executor where
  "example_executor =
     \<lparr>regions = [''us-east1''], workdir = ''/w'', workflow_sources = [''/w/Snakefile''],
      aux_path = ''/w/.snakemake/auxiliary'', save_storage_cache = False,
      build_packages = [], pipeline_package = None, machine_type_prefix = None,
      private_machine_type_prefix = None, default_resources = Map.empty,
      preemptible_rules = None, network = None, subnetwork = None,
      service_account_email = None, bucket = Map.empty, uploads = [],
      local_files = [''/w/Snakefile'' \<mapsto> ''rule all''], debug_log = [], slept = []\<rparr>"

definition example_remote :: remote where
  "example_remote =
     \<lparr>zones_list = (\<lambda>k. Inr [''us-east1-b'', ''europe-west1-b'']),
      machineTypes_list = (\<lambda>zone k. Inr [example_A, example_B]),
      acceleratorTypes_list = (\<lambda>zone k. Inr None),
      operations_get = (\<lambda>name k. Inr \<lparr>status_done = None, events = []\<rparr>)\<rparr>"

text \<open>A request that is refused at every execution, and a project whose operations
  are all gone.\<close>

definition permission_denied :: "unit request" where
  "permission_denied = (\<lambda>k. Inl (HttpError 403 ''permission denied''))"

definition not_found_remote :: remote where
  "not_found_remote =
     example_remote\<lparr>operations_get := (\<lambda>name k. Inl (HttpError 404 ''not found''))\<rparr>"

definition lost_job :: submitted_job where
  "lost_job = submitted_job_info ''projects/p/locations/us-central1/operations/7''"

text \<open>A finished operation whose first event reports exit status 1.\<close>

definition failed_status :: status where
  "failed_status =
     \<lparr>status_done = Some True,
      events = [\<lparr>description = ''Unexpected exit status 1 while running action'',
                 failed = None,
                 unexpectedExitStatus = Some \<lparr>exitStatus = 1, stderr = Some ''boom''\<rparr>\<rparr>,
                \<lparr>description = ''Worker released'', failed = None,
                 unexpectedExitStatus = None\<rparr>]\<rparr>"

text \<open>Three machine types that every zone of a project offers: a shared-core one, one of
  the E2 family and a standard one. The executor \<open>zone_executor\<close> is restricted to the
  one zone \<^verbatim>\<open>us-east1-b\<close>; \<open>example_executor\<close> has the region \<^verbatim>\<open>us-east1\<close> with two
  zones of the project.\<close>

definition f1_micro :: machine_type where
  "f1_micro = \<lparr>mt_name = ''f1-micro'', guestCpus = 1, memoryMb = 614,
               mt_description = ''1 vCPU (shared physical core) and 0.6 GB RAM'',
               mt_zone = ''us-east1-b''\<rparr>"

definition e2_medium :: machine_type where
  "e2_medium = \<lparr>mt_name = ''e2-medium'', guestCpus = 2, memoryMb = 4096,
                mt_description = ''2 vCPUs, 4 GB RAM'', mt_zone = ''us-east1-b''\<rparr>"

definition n1_standard_1 :: machine_type where
  "n1_standard_1 = \<lparr>mt_name = ''n1-standard-1'', guestCpus = 1, memoryMb = 3840,
                    mt_description = ''1 vCPU, 3.75 GB RAM'', mt_zone = ''us-east1-b''\<rparr>"

definition micro_remote :: remote where
  "micro_remote =
     example_remote\<lparr>zones_list := (\<lambda>k. Inr [''us-east1-b'', ''us-east1-c'', ''europe-west1-b'']),
                    machineTypes_list := (\<lambda>zone k. Inr [f1_micro, e2_medium, n1_standard_1])\<rparr>"

definition zone_executor :: executor where
  "zone_executor = example_executor\<lparr>regions := [''us-east1-b'']\<rparr>"

text \<open>A stand-in for the standard library, for evaluation: no symbolic links, archives
  that list their members, and two digests.\<close>

definition example_platform :: platform where
  "example_platform =
     \<lparr>realpath = (\<lambda>path. path),
      tempdir = ''/tmp'',
      targz_bytes = (\<lambda>path members. concat (map (\<lambda>(arcname, content). arcname @ content) members)),
      sha256_hexdigest = (\<lambda>content. if content = [] then ''e3b0c442'' else ''9f86d081'')\<rparr>"

text \<open>An executor whose only source file lies in \<^verbatim>\<open>/x/w\<close>, outside the working directory
  \<^verbatim>\<open>/w\<close>.\<close>

definition outside_executor :: executor where
  "outside_executor =
     example_executor\<lparr>workflow_sources := [''/x/w/f''],
                      local_files := [''/x/w/f'' \<mapsto> ''data'']\<rparr>"

text \<open>A job that asks for one GPU, and a project whose zones offer an accelerator.\<close>

definition gpu_job :: job where
  "gpu_job =
     \<lparr>resources = \<lparr>res_cores = Some 1, res_mem_mb = Some 1024, res_disk_mb = Some 2048,
                   res_nvidia_gpu = Some 1, res_gpu = None, res_gpu_model = None,
                   res_machine_type = None\<rparr>,
      job_is_group = False, job_rules = [], job_rule_name = ''train''\<rparr>"

definition gpu_remote :: remote where
  "gpu_remote =
     example_remote\<lparr>acceleratorTypes_list :=
       (\<lambda>zone k. Inr (Some [\<lparr>acc_name = ''nvidia-tesla-t4'', maximumCardsPerInstance = 4\<rparr>]))\<rparr>"

text \<open>A project whose only zone in the region offers one machine type with many CPUs and
  one with much memory, and a job that asks for both.\<close>

definition high_cpu :: machine_type where
  "high_cpu = \<lparr>mt_name = ''n1-highcpu-8'', guestCpus = 8, memoryMb = 7372,
               mt_description = ''8 vCPUs, 7.2 GB RAM'', mt_zone = ''us-east1-b''\<rparr>"

definition high_mem :: machine_type where
  "high_mem = \<lparr>mt_name = ''n1-highmem-2'', guestCpus = 2, memoryMb = 65536,
               mt_description = ''2 vCPUs, 64 GB RAM'', mt_zone = ''us-east1-b''\<rparr>"

definition split_remote :: remote where
  "split_remote = example_remote\<lparr>machineTypes_list := (\<lambda>zone k. Inr [high_cpu, high_mem])\<rparr>"

definition big_job :: job where
  "big_job =
     \<lparr>resources = \<lparr>res_cores = Some 8, res_mem_mb = Some 65536, res_disk_mb = Some 2048,
                   res_nvidia_gpu = None, res_gpu = None, res_gpu_model = None,
                   res_machine_type = None\<rparr>,
      job_is_group = False, job_rules = [], job_rule_name = ''align''\<rparr>"

definition small_job :: job where
  "small_job =
     \<lparr>resources = \<lparr>res_cores = Some 2, res_mem_mb = Some 4096, res_disk_mb = Some 2048,
                   res_nvidia_gpu = None, res_gpu = None, res_gpu_model = None,
                   res_machine_type = None\<rparr>,
      job_is_group = False, job_rules = [], job_rule_name = ''align''\<rparr>"

text \<open>The frame of the planning: every attribute of the executor other than the two
  prefix attributes, the default resources, the debug log and the log of sleeps has the
  same value in both states.\<close>

definition same_outside_planning :: "executor \<Rightarrow> executor \<Rightarrow> bool" where
  "same_outside_planning self self' =
     (regions self' = regions self \<and> workdir self' = workdir self
      \<and> workflow_sources self' = workflow_sources self \<and> aux_path self' = aux_path self
      \<and> save_storage_cache self' = save_storage_cache self
      \<and> build_packages self' = build_packages self
      \<and> pipeline_package self' = pipeline_package self
      \<and> preemptible_rules self' = preemptible_rules self
      \<and> network self' = network self \<and> subnetwork self' = subnetwork self
      \<and> service_account_email self' = service_account_email self
      \<and> bucket self' = bucket self \<and> uploads self' = uploads self
      \<and> local_files self' = local_files self)"

text \<open>A request that fails twice and then succeeds.\<close>

definition flaky_request :: "unit request" where
  "flaky_request = (\<lambda>k. if k < 2 then Inl BrokenPipeError else Inr ())"

text \<open>
  What \<^verbatim>\<open>gzip.py\<close> does with the name of the file that \<^verbatim>\<open>tarfile.open(targz, "w:gz")\<close>
  writes: the header of the archive carries the base name of the file, without a final
  \<^verbatim>\<open>.gz\<close> (and the time of writing, which the stand-in leaves out). The stand-in puts
  that name in front of the members, and has one digest for each of two archives.
\<close>

definition gzip_fname :: "string \<Rightarrow> string" where
  "gzip_fname path =
     (if endswith (basename path) ''.gz'' then take (length (basename path) - 3) (basename path)
      else basename path)"

definition gzip_platform :: platform where
  "gzip_platform =
     \<lparr>realpath = (\<lambda>path. path),
      tempdir = ''/tmp'',
      targz_bytes = (\<lambda>path members.
         gzip_fname path @ concat (map (\<lambda>(arcname, content). arcname @ content) members)),
      sha256_hexdigest = (\<lambda>content.
         if prefix ''snakemake-k3x9.tar'' content then ''9f86d081''
         else if prefix ''snakemake-q7zz.tar'' content then ''2c26b46b''
         else ''e3b0c442'')\<rparr>"


section \<open>Properties of the selection\<close>


lemma smallest_pass_snoc:
  "smallest_pass (ms @ [(name, m)]) acc =
     (case smallest_pass ms acc of (s, c, mm) \<Rightarrow>
        if guestCpus m < c \<and> memoryMb m < mm then (name, guestCpus m, memoryMb m) else (s, c, mm))"
  by (induction ms acc rule: smallest_pass.induct) auto

lemma smallest_pass_keep:
  "(\<forall>(n, m) \<in> set ms. \<not> (guestCpus m < c \<and> memoryMb m < mm)) \<Longrightarrow>
     smallest_pass ms (s, c, mm) = (s, c, mm)"
  by (induction ms) auto

lemma smallest_pass_le:
  "smallest_pass ms (s, c, mm) = (s', c', mm') \<Longrightarrow> c' \<le> c \<and> mm' \<le> mm"
proof (induction ms arbitrary: s c mm)
  case Nil
  then show ?case by simp
next
  case (Cons a ms)
  obtain n m where a: "a = (n, m)" by (cases a)
  show ?case
  proof (cases "guestCpus m < c \<and> memoryMb m < mm")
    case True
    with Cons.prems a have "smallest_pass ms (n, guestCpus m, memoryMb m) = (s', c', mm')" by simp
    from Cons.IH [OF this] True show ?thesis by simp
  next
    case False
    with Cons.prems a have "smallest_pass ms (s, c, mm) = (s', c', mm')" by auto
    from Cons.IH [OF this] show ?thesis .
  qed
qed

lemma smallest_pass_undominated:
  "smallest_pass ms (s, c, mm) = (s', c', mm') \<Longrightarrow> (n, m) \<in> set ms \<Longrightarrow>
     \<not> (guestCpus m < c' \<and> memoryMb m < mm')"
proof (induction ms arbitrary: s c mm)
  case Nil
  then show ?case by simp
next
  case (Cons a ms)
  obtain n0 m0 where a: "a = (n0, m0)" by (cases a)
  let ?acc = "if guestCpus m0 < c \<and> memoryMb m0 < mm
              then (n0, guestCpus m0, memoryMb m0) else (s, c, mm)"
  from Cons.prems(1) a have run: "smallest_pass ms ?acc = (s', c', mm')" by simp
  show ?case
  proof (cases "(n, m) \<in> set ms")
    case True
    show ?thesis
    proof (cases "guestCpus m0 < c \<and> memoryMb m0 < mm")
      case t: True
      with run have "smallest_pass ms (n0, guestCpus m0, memoryMb m0) = (s', c', mm')" by simp
      from Cons.IH [OF this True] show ?thesis .
    next
      case f: False
      with run have "smallest_pass ms (s, c, mm) = (s', c', mm')" by auto
      from Cons.IH [OF this True] show ?thesis .
    qed
  next
    case False
    with Cons.prems(2) a have eq: "n = n0" "m = m0" by auto
    show ?thesis
    proof (cases "guestCpus m0 < c \<and> memoryMb m0 < mm")
      case t: True
      with run have "smallest_pass ms (n0, guestCpus m0, memoryMb m0) = (s', c', mm')" by simp
      from smallest_pass_le [OF this] eq show ?thesis by auto
    next
      case f: False
      with run have "smallest_pass ms (s, c, mm) = (s', c', mm')" by auto
      from smallest_pass_le [OF this] f eq show ?thesis by auto
    qed
  qed
qed

text \<open>The incumbent always names an entry with its two numbers.\<close>
lemma smallest_pass_member:
  "smallest_pass ms (s, c, mm) = (s', c', mm') \<Longrightarrow>
     (s', c', mm') = (s, c, mm) \<or> (\<exists>m. (s', m) \<in> set ms \<and> guestCpus m = c' \<and> memoryMb m = mm')"
proof (induction ms arbitrary: s c mm)
  case Nil
  then show ?case by simp
next
  case (Cons a ms)
  obtain n0 m0 where a: "a = (n0, m0)" by (cases a)
  show ?case
  proof (cases "guestCpus m0 < c \<and> memoryMb m0 < mm")
    case True
    with Cons.prems a have "smallest_pass ms (n0, guestCpus m0, memoryMb m0) = (s', c', mm')" by simp
    from Cons.IH [OF this] a show ?thesis by auto
  next
    case False
    with Cons.prems a have "smallest_pass ms (s, c, mm) = (s', c', mm')" by auto
    from Cons.IH [OF this] a show ?thesis by auto
  qed
qed

lemma set_update_subset: "set (AList.update k v al) \<subseteq> insert (k, v) (set al)"
  by (induction al) auto

lemma first_pass_keepers:
  "first_pass cores mem_mb ms (max_cpu, max_mem, keepers) = (max_cpu', max_mem', keepers') \<Longrightarrow>
     set keepers' \<subseteq> set keepers \<union> {(n, m). (n, m) \<in> set ms \<and> cores \<le> guestCpus m \<and> mem_mb \<le> memoryMb m}"
proof (induction ms arbitrary: max_cpu max_mem keepers)
  case Nil
  then show ?case by simp
next
  case (Cons a ms)
  obtain n0 m0 where a: "a = (n0, m0)" by (cases a)
  show ?case
  proof (cases "guestCpus m0 < cores \<or> memoryMb m0 < mem_mb")
    case True
    with Cons.prems a have "first_pass cores mem_mb ms (max max_cpu (guestCpus m0), max max_mem (memoryMb m0), keepers) = (max_cpu', max_mem', keepers')" by simp
    from Cons.IH [OF this] a show ?thesis by auto
  next
    case False
    with Cons.prems a have "first_pass cores mem_mb ms (max max_cpu (guestCpus m0), max max_mem (memoryMb m0), AList.update n0 m0 keepers) = (max_cpu', max_mem', keepers')" by simp
    from Cons.IH [OF this] a False set_update_subset [of n0 m0 keepers] show ?thesis by auto
  qed
qed

lemma first_pass_distinct:
  "first_pass cores mem_mb ms (max_cpu, max_mem, keepers) = (max_cpu', max_mem', keepers') \<Longrightarrow>
   distinct (map fst keepers) \<Longrightarrow> distinct (map fst keepers')"
proof (induction ms arbitrary: max_cpu max_mem keepers)
  case Nil
  then show ?case by simp
next
  case (Cons a ms)
  obtain n0 m0 where a: "a = (n0, m0)" by (cases a)
  show ?case
  proof (cases "guestCpus m0 < cores \<or> memoryMb m0 < mem_mb")
    case True
    with Cons.prems a have "first_pass cores mem_mb ms (max max_cpu (guestCpus m0), max max_mem (memoryMb m0), keepers) = (max_cpu', max_mem', keepers')" by simp
    from Cons.IH [OF this] Cons.prems(2) show ?thesis by auto
  next
    case False
    with Cons.prems a have "first_pass cores mem_mb ms (max max_cpu (guestCpus m0), max max_mem (memoryMb m0), AList.update n0 m0 keepers) = (max_cpu', max_mem', keepers')" by simp
    from Cons.IH [OF this] Cons.prems(2) show ?thesis by (simp add: distinct_update)
  qed
qed

text \<open>keys kept\<close>
lemma first_pass_keys:
  "first_pass cores mem_mb ms (max_cpu, max_mem, keepers) = (max_cpu', max_mem', keepers') \<Longrightarrow>
     fst ` set keepers \<union> {n. \<exists>m. (n, m) \<in> set ms \<and> cores \<le> guestCpus m \<and> mem_mb \<le> memoryMb m} \<subseteq> fst ` set keepers'"
proof (induction ms arbitrary: max_cpu max_mem keepers)
  case Nil
  then show ?case by simp
next
  case (Cons a ms)
  obtain n0 m0 where a: "a = (n0, m0)" by (cases a)
  show ?case
  proof (cases "guestCpus m0 < cores \<or> memoryMb m0 < mem_mb")
    case True
    with Cons.prems a have "first_pass cores mem_mb ms (max max_cpu (guestCpus m0), max max_mem (memoryMb m0), keepers) = (max_cpu', max_mem', keepers')" by simp
    from Cons.IH [OF this] a True show ?thesis by auto
  next
    case False
    with Cons.prems a have "first_pass cores mem_mb ms (max max_cpu (guestCpus m0), max max_mem (memoryMb m0), AList.update n0 m0 keepers) = (max_cpu', max_mem', keepers')" by simp
    from Cons.IH [OF this] a False dom_update [where k = n0 and v = m0 and al = keepers] show ?thesis by auto
  qed
qed


lemma update_fresh: "k \<notin> fst ` set al \<Longrightarrow> AList.update k v al = al @ [(k, v)]"
  by (induction al) auto

lemma first_pass_filter:
  "distinct (map fst ms) \<Longrightarrow> fst ` set keepers \<inter> fst ` set ms = {} \<Longrightarrow>
   snd (snd (first_pass cores mem_mb ms (max_cpu, max_mem, keepers))) =
     keepers @ filter (\<lambda>(n, m). cores \<le> guestCpus m \<and> mem_mb \<le> memoryMb m) ms"
proof (induction ms arbitrary: max_cpu max_mem keepers)
  case Nil
  then show ?case by simp
next
  case (Cons a ms)
  obtain n0 m0 where a: "a = (n0, m0)" by (cases a)
  from Cons.prems a have d: "distinct (map fst ms)" and n0: "n0 \<notin> fst ` set ms"
    and k0: "n0 \<notin> fst ` set keepers" and disj: "fst ` set keepers \<inter> fst ` set ms = {}"
    by auto
  show ?case
  proof (cases "guestCpus m0 < cores \<or> memoryMb m0 < mem_mb")
    case True
    with Cons.IH [OF d disj] a show ?thesis by auto
  next
    case False
    from k0 have upd: "AList.update n0 m0 keepers = keepers @ [(n0, m0)]" by (rule update_fresh)
    from disj n0 k0 have "fst ` set (keepers @ [(n0, m0)]) \<inter> fst ` set ms = {}" by auto
    from Cons.IH [OF d this] a False upd show ?thesis by auto
  qed
qed

lemma prefix_pass_keepers:
  "set (prefix_pass p ms keepers) \<subseteq> set keepers \<union> set ms"
proof (induction ms arbitrary: keepers)
  case Nil
  then show ?case by simp
next
  case (Cons a ms)
  obtain n0 m0 where a: "a = (n0, m0)" by (cases a)
  from Cons.IH [of "AList.update n0 m0 keepers"] Cons.IH [of keepers] a
    set_update_subset [of n0 m0 keepers]
  show ?case by auto
qed

text \<open>Whatever the prefix: a selected machine type is an entry of the catalog that
  satisfies the request.\<close>

lemma select_machine_type_sound:
  assumes "select_machine_type cores mem_mb pfx ms = Inr (s, sel)"
  shows "(s, sel) \<in> set ms \<and> cores \<le> guestCpus sel \<and> mem_mb \<le> memoryMb sel"
proof -
  obtain max_cpu max_mem sized where fp:
    "first_pass cores mem_mb ms (1, 15360, []) = (max_cpu, max_mem, sized)"
    by (cases "first_pass cores mem_mb ms (1, 15360, [])") auto
  define keepers where "keepers = (case truthy_str pfx of
                           Some p \<Rightarrow> prefix_pass p sized []
                         | None \<Rightarrow> sized)"
  from first_pass_keepers [OF fp]
  have sized: "set sized \<subseteq> {(n, m). (n, m) \<in> set ms \<and> cores \<le> guestCpus m \<and> mem_mb \<le> memoryMb m}"
    by simp
  have "set keepers \<subseteq> set sized"
    using prefix_pass_keepers [of _ sized "[]"] by (auto simp: keepers_def split: option.splits)
  with sized have keep: "set keepers \<subseteq> {(n, m). (n, m) \<in> set ms \<and> cores \<le> guestCpus m \<and> mem_mb \<le> memoryMb m}"
    by blast
  from assms fp have "map_of keepers s = Some sel"
    by (auto simp: select_machine_type_def keepers_def Let_def split: list.splits prod.splits option.splits)
  then have "(s, sel) \<in> set keepers" by (rule map_of_SomeD)
  with keep show ?thesis by auto
qed

lemma smallest_pass_key:
  "smallest_pass ms (s, c, mm) = (s', c', mm') \<Longrightarrow> s' = s \<or> s' \<in> fst ` set ms"
  using smallest_pass_member [of ms s c mm s' c' mm'] by force

text \<open>Without a prefix: one adequate entry is enough for the selection to succeed.\<close>

lemma select_machine_type_succeeds:
  assumes "(n, m) \<in> set ms" and "cores \<le> guestCpus m" and "mem_mb \<le> memoryMb m"
  shows "\<exists>s sel. select_machine_type cores mem_mb None ms = Inr (s, sel)"
proof -
  obtain max_cpu max_mem sized where fp:
    "first_pass cores mem_mb ms (1, 15360, []) = (max_cpu, max_mem, sized)"
    by (cases "first_pass cores mem_mb ms (1, 15360, [])") auto
  from first_pass_keys [OF fp] assms have "n \<in> fst ` set sized" by auto
  then obtain first_name first_type rest where sized: "sized = (first_name, first_type) # rest"
    by (cases sized) auto
  obtain s c mm where sp:
    "smallest_pass sized (first_name, guestCpus first_type, memoryMb first_type) = (s, c, mm)"
    by (cases "smallest_pass sized (first_name, guestCpus first_type, memoryMb first_type)") auto
  from smallest_pass_key [OF sp] sized have "s \<in> fst ` set sized" by auto
  then obtain sel where "map_of sized s = Some sel"
    by (cases "map_of sized s") (auto simp: map_of_eq_None_iff)
  with fp sized sp show ?thesis
    by (simp add: select_machine_type_def)
qed

lemma select_machine_type_undominated:
  assumes sel: "select_machine_type cores mem_mb None ms = Inr (s, sel)"
    and d: "distinct (map fst ms)"
    and m: "(n, m) \<in> set ms" "cores \<le> guestCpus m" "mem_mb \<le> memoryMb m"
  shows "\<not> (guestCpus m < guestCpus sel \<and> memoryMb m < memoryMb sel)"
proof -
  obtain max_cpu max_mem sized where fp:
    "first_pass cores mem_mb ms (1, 15360, []) = (max_cpu, max_mem, sized)"
    by (cases "first_pass cores mem_mb ms (1, 15360, [])") auto
  from first_pass_filter [OF d, of "[]" cores mem_mb 1 15360] fp
  have sized_eq: "sized = filter (\<lambda>(n, m). cores \<le> guestCpus m \<and> mem_mb \<le> memoryMb m) ms"
    by simp
  with m have mem: "(n, m) \<in> set sized" by simp
  from sized_eq d have ds: "distinct (map fst sized)" by (simp add: distinct_map_filter)
  from mem obtain first_name first_type rest where sized: "sized = (first_name, first_type) # rest"
    by (cases sized) auto
  obtain s' c mm where sp:
    "smallest_pass sized (first_name, guestCpus first_type, memoryMb first_type) = (s', c, mm)"
    by (cases "smallest_pass sized (first_name, guestCpus first_type, memoryMb first_type)") auto
  from sel fp sized sp have s: "s' = s" and look: "map_of sized s = Some sel"
    by (auto simp: select_machine_type_def split: option.splits)
  from smallest_pass_member [OF sp] sized
  obtain m' where m': "(s', m') \<in> set sized" "guestCpus m' = c" "memoryMb m' = mm"
    by auto
  from m'(1) ds s have "map_of sized s = Some m'" by simp
  with look have "m' = sel" by simp
  with m' smallest_pass_undominated [OF sp mem] show ?thesis by simp
qed

lemma prefix_pass_filter:
  "distinct (map fst ms) \<Longrightarrow> fst ` set keepers \<inter> fst ` set ms = {} \<Longrightarrow>
     prefix_pass p ms keepers = keepers @ filter (\<lambda>(n, m). prefix p n) ms"
proof (induction ms arbitrary: keepers)
  case Nil
  then show ?case by simp
next
  case (Cons a ms)
  obtain n0 m0 where a: "a = (n0, m0)" by (cases a)
  from Cons.prems a have d: "distinct (map fst ms)" and n0: "n0 \<notin> fst ` set ms"
    and k0: "n0 \<notin> fst ` set keepers" and disj: "fst ` set keepers \<inter> fst ` set ms = {}"
    by auto
  show ?case
  proof (cases "prefix p n0")
    case False
    with Cons.IH [OF d disj] a show ?thesis by simp
  next
    case True
    from k0 have upd: "AList.update n0 m0 keepers = keepers @ [(n0, m0)]" by (rule update_fresh)
    from disj n0 k0 have "fst ` set (keepers @ [(n0, m0)]) \<inter> fst ` set ms = {}" by auto
    from Cons.IH [OF d this] a True upd show ?thesis by simp
  qed
qed

text \<open>The candidates of a catalog with distinct names are its entries that are large
  enough and match the prefix, in the order of the catalog; the scan starts at the first
  of them.\<close>

lemma select_machine_type_scan:
  assumes d: "distinct (map fst catalog)"
  shows "select_machine_type cores mem_mb pfx catalog =
     (case filter (\<lambda>(n, m). cores \<le> guestCpus m \<and> mem_mb \<le> memoryMb m
                      \<and> (case truthy_str pfx of Some p \<Rightarrow> prefix p n | None \<Rightarrow> True)) catalog of
        [] \<Rightarrow>
          (case truthy_str pfx of
             Some p \<Rightarrow> Inl (WorkflowError (PrefixTooStrict p))
           | None \<Rightarrow>
               Inl (WorkflowError (ResourcesUnsatisfiable mem_mb cores
                      (fst (snd (first_pass cores mem_mb catalog (1, 15360, []))))
                      (fst (first_pass cores mem_mb catalog (1, 15360, []))))))
      | (first_name, first_type) # others \<Rightarrow>
          (case smallest_pass ((first_name, first_type) # others)
                  (first_name, guestCpus first_type, memoryMb first_type) of
             (s, c, mm) \<Rightarrow>
               (case map_of ((first_name, first_type) # others) s of
                  Some selected \<Rightarrow> Inr (s, selected)
                | None \<Rightarrow> Inl (KeyError s))))"
proof -
  obtain max_cpu max_mem sized where fp:
    "first_pass cores mem_mb catalog (1, 15360, []) = (max_cpu, max_mem, sized)"
    by (cases "first_pass cores mem_mb catalog (1, 15360, [])") auto
  from first_pass_filter [OF d, of "[]" cores mem_mb 1 15360] fp
  have sized: "sized = filter (\<lambda>(n, m). cores \<le> guestCpus m \<and> mem_mb \<le> memoryMb m) catalog"
    by simp
  with d have ds: "distinct (map fst sized)" by (simp add: distinct_map_filter)
  define keepers where "keepers = (case truthy_str pfx of
                           Some p \<Rightarrow> prefix_pass p sized []
                         | None \<Rightarrow> sized)"
  have "keepers = filter (\<lambda>(n, m). case truthy_str pfx of Some p \<Rightarrow> prefix p n | None \<Rightarrow> True) sized"
    using prefix_pass_filter [OF ds, of "[]"] by (auto simp: keepers_def split: option.splits)
  also have "\<dots> = filter (\<lambda>(n, m). cores \<le> guestCpus m \<and> mem_mb \<le> memoryMb m
                      \<and> (case truthy_str pfx of Some p \<Rightarrow> prefix p n | None \<Rightarrow> True)) catalog"
    unfolding sized by (induction catalog) auto
  finally have keepers: "keepers = filter (\<lambda>(n, m). cores \<le> guestCpus m \<and> mem_mb \<le> memoryMb m
                      \<and> (case truthy_str pfx of Some p \<Rightarrow> prefix p n | None \<Rightarrow> True)) catalog" .
  have main: "select_machine_type cores mem_mb pfx catalog =
     (case keepers of
        [] \<Rightarrow>
          (case truthy_str pfx of
             Some p \<Rightarrow> Inl (WorkflowError (PrefixTooStrict p))
           | None \<Rightarrow> Inl (WorkflowError (ResourcesUnsatisfiable mem_mb cores max_mem max_cpu)))
      | (first_name, first_type) # others \<Rightarrow>
          (case smallest_pass keepers (first_name, guestCpus first_type, memoryMb first_type) of
             (s, c, mm) \<Rightarrow>
               (case map_of keepers s of
                  Some selected \<Rightarrow> Inr (s, selected)
                | None \<Rightarrow> Inl (KeyError s))))"
    unfolding keepers_def using fp by (simp add: select_machine_type_def Let_def)
  show ?thesis
  proof (cases keepers)
    case Nil
    with main fp show ?thesis unfolding keepers [symmetric] by (simp split: option.splits)
  next
    case (Cons a others)
    obtain n0 m0 where "a = (n0, m0)" by (cases a)
    with Cons have "keepers = (n0, m0) # others" by simp
    with main show ?thesis unfolding keepers [symmetric] by simp
  qed
qed

lemma select_machine_type_from_first:
  assumes d: "distinct (map fst catalog)"
    and keepers: "filter (\<lambda>(n, m). cores \<le> guestCpus m \<and> mem_mb \<le> memoryMb m
                      \<and> (case truthy_str pfx of Some p \<Rightarrow> prefix p n | None \<Rightarrow> True)) catalog
                  = (first_name, first_type) # others"
  shows "\<exists>selected.
           map_of catalog (fst (smallest_pass ((first_name, first_type) # others)
                                  (first_name, guestCpus first_type, memoryMb first_type)))
             = Some selected
           \<and> select_machine_type cores mem_mb pfx catalog =
               Inr (fst (smallest_pass ((first_name, first_type) # others)
                           (first_name, guestCpus first_type, memoryMb first_type)), selected)"
proof -
  let ?keepers = "(first_name, first_type) # others"
  obtain s c mm where sp:
    "smallest_pass ?keepers (first_name, guestCpus first_type, memoryMb first_type) = (s, c, mm)"
    by (cases "smallest_pass ?keepers (first_name, guestCpus first_type, memoryMb first_type)") auto
  from smallest_pass_key [OF sp] have "s \<in> fst ` set ?keepers" by auto
  then have "map_of ?keepers s \<noteq> None" by (simp only: map_of_eq_None_iff not_not)
  then obtain selected where look: "map_of ?keepers s = Some selected" by blast
  then have "(s, selected) \<in> set ?keepers" by (rule map_of_SomeD)
  with keepers have "(s, selected) \<in> set catalog"
    by (metis (no_types, lifting) filter_is_subset subsetD)
  with d have "map_of catalog s = Some selected" by simp
  moreover from select_machine_type_scan [OF d, of cores mem_mb pfx] keepers sp look
  have "select_machine_type cores mem_mb pfx catalog = Inr (s, selected)" by simp
  ultimately show ?thesis using sp by simp
qed

lemma select_machine_type_first_wins:
  assumes d: "distinct (map fst catalog)"
    and keepers: "filter (\<lambda>(n, m). cores \<le> guestCpus m \<and> mem_mb \<le> memoryMb m
                      \<and> (case truthy_str pfx of Some p \<Rightarrow> prefix p n | None \<Rightarrow> True)) catalog
                  = (first_name, first_type) # others"
    and none: "\<forall>(n', m') \<in> set others.
                 \<not> (guestCpus m' < guestCpus first_type \<and> memoryMb m' < memoryMb first_type)"
  shows "select_machine_type cores mem_mb pfx catalog = Inr (first_name, first_type)"
proof -
  from none have "\<forall>(n', m') \<in> set ((first_name, first_type) # others).
                 \<not> (guestCpus m' < guestCpus first_type \<and> memoryMb m' < memoryMb first_type)"
    by simp
  then have "smallest_pass ((first_name, first_type) # others)
               (first_name, guestCpus first_type, memoryMb first_type) =
             (first_name, guestCpus first_type, memoryMb first_type)"
    by (rule smallest_pass_keep)
  with select_machine_type_scan [OF d, of cores mem_mb pfx] keepers show ?thesis by simp
qed

lemma select_machine_type_no_candidate:
  assumes d: "distinct (map fst catalog)"
    and keepers: "filter (\<lambda>(n, m). cores \<le> guestCpus m \<and> mem_mb \<le> memoryMb m
                      \<and> (case truthy_str pfx of Some p \<Rightarrow> prefix p n | None \<Rightarrow> True)) catalog = []"
  shows "\<exists>max_mem max_cpu. select_machine_type cores mem_mb pfx catalog =
           Inl (WorkflowError (case truthy_str pfx of
                                 Some p \<Rightarrow> PrefixTooStrict p
                               | None \<Rightarrow> ResourcesUnsatisfiable mem_mb cores max_mem max_cpu))"
  using select_machine_type_scan [OF d, of cores mem_mb pfx] keepers
  by (cases "truthy_str pfx") auto

text \<open>
  Claim C2. The selection is the "dominant-minimal" scan. Its candidates are the entries of
  the catalog that are large enough (and match the prefix, if one is set), in the order of
  the catalog; without a candidate it raises the no-machine-type error. The scan starts
  with the first candidate as the incumbent and goes through the candidates; extending the
  candidates by one more candidate replaces the incumbent exactly when that candidate has
  both strictly fewer CPUs and strictly less memory than the incumbent; when no candidate
  is smaller in both dimensions (so also when each is smaller in one dimension only) the
  incumbent stays, so the first candidate is selected; no adequate entry of a catalog
  with distinct names is smaller in both dimensions than the selected one. In the catalog
  \<open>{A: 2/4096, B: 4/8192}\<close> the request 2/4096 selects \<open>A\<close>, 3/4096 selects \<open>B\<close>, and 8/4096
  raises the error for unsatisfiable resources; of two machine types that are each
  smaller in one dimension, the one that comes first is selected.
\<close>

theorem select_dominant_minimal:
  "smallest_pass (ms @ [(name, m)]) acc =
     (case smallest_pass ms acc of (s, c, mm) \<Rightarrow>
        if guestCpus m < c \<and> memoryMb m < mm then (name, guestCpus m, memoryMb m)
        else (s, c, mm))
   \<and> ((\<forall>(n', m') \<in> set ms. \<not> (guestCpus m' < min_cores \<and> memoryMb m' < min_mem)) \<longrightarrow>
        smallest_pass ms (smallest, min_cores, min_mem) = (smallest, min_cores, min_mem))
   \<and> (select_machine_type cores mem_mb None catalog = Inr (chosen, selected) \<longrightarrow>
        distinct (map fst catalog) \<longrightarrow>
        (\<forall>(n', m') \<in> set catalog. cores \<le> guestCpus m' \<and> mem_mb \<le> memoryMb m' \<longrightarrow>
           \<not> (guestCpus m' < guestCpus selected \<and> memoryMb m' < memoryMb selected)))
   \<and> select_machine_type 2 4096 None example_catalog = Inr (''A'', example_A)
   \<and> select_machine_type 3 4096 None example_catalog = Inr (''B'', example_B)
   \<and> select_machine_type 8 4096 None example_catalog =
        Inl (WorkflowError (ResourcesUnsatisfiable 4096 8 15360 4))
   \<and> smallest_pass [] acc = acc
   \<and> (distinct (map fst catalog) \<longrightarrow>
        filter (\<lambda>(n, m). cores \<le> guestCpus m \<and> mem_mb \<le> memoryMb m
                  \<and> (case truthy_str pfx of Some p \<Rightarrow> prefix p n | None \<Rightarrow> True)) catalog
          = (first_name, first_type) # others \<longrightarrow>
        (\<exists>sel. map_of catalog (fst (smallest_pass ((first_name, first_type) # others)
                                      (first_name, guestCpus first_type, memoryMb first_type)))
                 = Some sel
              \<and> select_machine_type cores mem_mb pfx catalog =
                  Inr (fst (smallest_pass ((first_name, first_type) # others)
                              (first_name, guestCpus first_type, memoryMb first_type)), sel)))
   \<and> (distinct (map fst catalog) \<longrightarrow>
        filter (\<lambda>(n, m). cores \<le> guestCpus m \<and> mem_mb \<le> memoryMb m
                  \<and> (case truthy_str pfx of Some p \<Rightarrow> prefix p n | None \<Rightarrow> True)) catalog
          = (first_name, first_type) # others \<longrightarrow>
        (\<forall>(n', m') \<in> set others.
           \<not> (guestCpus m' < guestCpus first_type \<and> memoryMb m' < memoryMb first_type)) \<longrightarrow>
        select_machine_type cores mem_mb pfx catalog = Inr (first_name, first_type))
   \<and> (distinct (map fst catalog) \<longrightarrow>
        filter (\<lambda>(n, m). cores \<le> guestCpus m \<and> mem_mb \<le> memoryMb m
                  \<and> (case truthy_str pfx of Some p \<Rightarrow> prefix p n | None \<Rightarrow> True)) catalog = [] \<longrightarrow>
        (\<exists>max_mem max_cpu. select_machine_type cores mem_mb pfx catalog =
           Inl (WorkflowError (case truthy_str pfx of
                                 Some p \<Rightarrow> PrefixTooStrict p
                               | None \<Rightarrow> ResourcesUnsatisfiable mem_mb cores max_mem max_cpu))))
   \<and> select_machine_type 1 1024 None [(''n1-highcpu-8'', high_cpu), (''n1-highmem-2'', high_mem)] =
        Inr (''n1-highcpu-8'', high_cpu)
   \<and> select_machine_type 1 1024 None [(''n1-highmem-2'', high_mem), (''n1-highcpu-8'', high_cpu)] =
        Inr (''n1-highmem-2'', high_mem)"
proof (intro conjI impI)
  show "smallest_pass (ms @ [(name, m)]) acc =
     (case smallest_pass ms acc of (s, c, mm) \<Rightarrow>
        if guestCpus m < c \<and> memoryMb m < mm then (name, guestCpus m, memoryMb m)
        else (s, c, mm))"
    by (rule smallest_pass_snoc)
next
  assume "\<forall>(n', m') \<in> set ms. \<not> (guestCpus m' < min_cores \<and> memoryMb m' < min_mem)"
  then show "smallest_pass ms (smallest, min_cores, min_mem) = (smallest, min_cores, min_mem)"
    by (rule smallest_pass_keep)
next
  assume "select_machine_type cores mem_mb None catalog = Inr (chosen, selected)"
    and "distinct (map fst catalog)"
  then show "\<forall>(n', m') \<in> set catalog. cores \<le> guestCpus m' \<and> mem_mb \<le> memoryMb m' \<longrightarrow>
           \<not> (guestCpus m' < guestCpus selected \<and> memoryMb m' < memoryMb selected)"
    using select_machine_type_undominated [of cores mem_mb catalog chosen selected] by blast
next
  show "select_machine_type 2 4096 None example_catalog = Inr (''A'', example_A)"
    by (simp add: select_machine_type_def example_catalog_def example_A_def example_B_def)
next
  show "select_machine_type 3 4096 None example_catalog = Inr (''B'', example_B)"
    by (simp add: select_machine_type_def example_catalog_def example_A_def example_B_def)
next
  show "select_machine_type 8 4096 None example_catalog =
        Inl (WorkflowError (ResourcesUnsatisfiable 4096 8 15360 4))"
    by (simp add: select_machine_type_def example_catalog_def example_A_def example_B_def)
next
  show "smallest_pass [] acc = acc" by simp
next
  assume "distinct (map fst catalog)"
    and "filter (\<lambda>(n, m). cores \<le> guestCpus m \<and> mem_mb \<le> memoryMb m
                  \<and> (case truthy_str pfx of Some p \<Rightarrow> prefix p n | None \<Rightarrow> True)) catalog
          = (first_name, first_type) # others"
  then show "\<exists>sel. map_of catalog (fst (smallest_pass ((first_name, first_type) # others)
                                      (first_name, guestCpus first_type, memoryMb first_type)))
                 = Some sel
              \<and> select_machine_type cores mem_mb pfx catalog =
                  Inr (fst (smallest_pass ((first_name, first_type) # others)
                              (first_name, guestCpus first_type, memoryMb first_type)), sel)"
    by (rule select_machine_type_from_first)
next
  assume "distinct (map fst catalog)"
    and "filter (\<lambda>(n, m). cores \<le> guestCpus m \<and> mem_mb \<le> memoryMb m
                  \<and> (case truthy_str pfx of Some p \<Rightarrow> prefix p n | None \<Rightarrow> True)) catalog
          = (first_name, first_type) # others"
    and "\<forall>(n', m') \<in> set others.
           \<not> (guestCpus m' < guestCpus first_type \<and> memoryMb m' < memoryMb first_type)"
  then show "select_machine_type cores mem_mb pfx catalog = Inr (first_name, first_type)"
    by (rule select_machine_type_first_wins)
next
  assume "distinct (map fst catalog)"
    and "filter (\<lambda>(n, m). cores \<le> guestCpus m \<and> mem_mb \<le> memoryMb m
                  \<and> (case truthy_str pfx of Some p \<Rightarrow> prefix p n | None \<Rightarrow> True)) catalog = []"
  then show "\<exists>max_mem max_cpu. select_machine_type cores mem_mb pfx catalog =
           Inl (WorkflowError (case truthy_str pfx of
                                 Some p \<Rightarrow> PrefixTooStrict p
                               | None \<Rightarrow> ResourcesUnsatisfiable mem_mb cores max_mem max_cpu))"
    by (rule select_machine_type_no_candidate)
next
  show "select_machine_type 1 1024 None [(''n1-highcpu-8'', high_cpu), (''n1-highmem-2'', high_mem)] =
        Inr (''n1-highcpu-8'', high_cpu)"
    by (simp add: select_machine_type_def high_cpu_def high_mem_def)
next
  show "select_machine_type 1 1024 None [(''n1-highmem-2'', high_mem), (''n1-highcpu-8'', high_cpu)] =
        Inr (''n1-highmem-2'', high_mem)"
    by (simp add: select_machine_type_def high_cpu_def high_mem_def)
qed

theorem select_dominant_minimal_witness:
  "\<not> (guestCpus example_A < 2 \<and> memoryMb example_A < 4096)
   \<and> \<not> (guestCpus example_B < 2 \<and> memoryMb example_B < 4096)
   \<and> smallest_pass example_catalog (''A'', 2, 4096) = (''A'', 2, 4096)
   \<and> select_machine_type 2 4096 None example_catalog = Inr (''A'', example_A)
   \<and> distinct (map fst example_catalog)
   \<and> 2 \<le> guestCpus example_B \<and> 4096 \<le> memoryMb example_B
   \<and> \<not> (guestCpus example_B < guestCpus example_A \<and> memoryMb example_B < memoryMb example_A)
   \<and> filter (\<lambda>(n, m). 2 \<le> guestCpus m \<and> 4096 \<le> memoryMb m
                \<and> (case truthy_str None of Some p \<Rightarrow> prefix p n | None \<Rightarrow> True)) example_catalog
        = (''A'', example_A) # [(''B'', example_B)]
   \<and> map_of example_catalog ''A'' = Some example_A"
  using select_dominant_minimal [where ms = example_catalog and name = "''B''" and m = example_B
      and acc = "(''A'', 2, 4096)" and min_cores = 2 and min_mem = 4096 and smallest = "''A''"
      and cores = 2 and mem_mb = 4096 and catalog = example_catalog and chosen = "''A''"
      and selected = example_A and pfx = None and first_name = "''A''"
      and first_type = example_A and others = "[(''B'', example_B)]"]
  by (simp add: example_catalog_def example_A_def example_B_def)


section \<open>Properties of the retry wrapper and of the polling\<close>


lemma retry_request_raises_wrapped:
  "retry_request request timeout attempts sl = (Inl e, sl') \<Longrightarrow> \<exists>ex. e = WorkflowError (Wrapped ex)"
proof (induction request timeout attempts sl rule: retry_request.induct)
  case (1 request timeout attempts slept)
  show ?case
  proof (cases "request 0")
    case (Inr v)
    with "1.prems" show ?thesis by (simp add: retry_request.simps)
  next
    case (Inl ex)
    show ?thesis
    proof (cases "attempts > 0")
      case True
      with Inl "1.prems" have "retry_request (\<lambda>k. request (Suc k)) (timeout * 2) (attempts - 1) (slept @ [timeout]) = (Inl e, sl')"
        by (simp add: retry_request.simps)
      from "1.IH" [OF Inl True this] show ?thesis .
    next
      case False
      with Inl "1.prems" show ?thesis by (auto simp add: retry_request.simps)
    qed
  qed
qed

lemma retry_request_all_fail:
  "(\<forall>k \<le> n. request k = Inl (errors k)) \<Longrightarrow>
   retry_request request timeout (int n) sl =
     (Inl (WorkflowError (Wrapped (errors n))), sl @ map (\<lambda>k. timeout * 2 ^ k) [0..<n])"
proof (induction n arbitrary: request errors timeout sl)
  case 0
  then show ?case by (simp add: retry_request.simps)
next
  case (Suc n)
  from Suc.prems have r0: "request 0 = Inl (errors 0)" by simp
  from Suc.prems have "\<forall>k \<le> n. (\<lambda>k. request (Suc k)) k = Inl ((\<lambda>k. errors (Suc k)) k)" by simp
  from Suc.IH [OF this]
  have IH: "retry_request (\<lambda>k. request (Suc k)) (timeout * 2) (int n) (sl @ [timeout]) =
     (Inl (WorkflowError (Wrapped (errors (Suc n)))), (sl @ [timeout]) @ map (\<lambda>k. timeout * 2 * 2 ^ k) [0..<n])"
    by simp
  have m: "map (\<lambda>k. timeout * 2 ^ k) [0..<Suc n] = timeout # map (\<lambda>k. timeout * 2 * 2 ^ k) [0..<n]"
    by (simp add: upt_conv_Cons map_Suc_upt [symmetric] del: upt_Suc)
  have "retry_request request timeout (int (Suc n)) sl =
        retry_request (\<lambda>k. request (Suc k)) (timeout * 2) (int n) (sl @ [timeout])"
    using r0 by (subst retry_request.simps) simp
  with IH m show ?case by simp
qed

lemma retry_request_first_success:
  "request 0 = Inr v \<Longrightarrow> retry_request request timeout attempts sl = (Inr v, sl)"
  by (simp add: retry_request.simps)

lemma events_pass_flag:
  "fst (events_pass es (success, log)) \<longleftrightarrow>
     success \<and> (\<forall>e \<in> set es. failed e = None \<and> (\<forall>a. unexpectedExitStatus e = Some a \<longrightarrow> exitStatus a = 0))"
  by (induction es arbitrary: success log) (auto split: option.splits)

lemma events_pass_log:
  "\<exists>entries. snd (events_pass es (success, log)) = log @ entries \<and>
      subseq (map (\<lambda>e. EventDescription (description e)) es) entries"
proof (induction es arbitrary: success log)
  case Nil
  then show ?case by simp
next
  case (Cons e es)
  let ?d = "EventDescription (description e)"
  have "\<exists>s1 extra. (case failed e of
          Some action \<Rightarrow>
            (False, log @ [EventDescription (description e), FailedAction (code action) (cause action)])
        | None \<Rightarrow>
            (case unexpectedExitStatus e of
               Some action \<Rightarrow>
                 (if exitStatus action \<noteq> 0
                  then (False,
                        (case stderr action of
                           Some err \<Rightarrow> log @ [EventDescription (description e),
                                                ExitMessage (description e) err]
                         | None \<Rightarrow> log @ [EventDescription (description e)]))
                  else (success, log @ [EventDescription (description e)]))
             | None \<Rightarrow> (success, log @ [EventDescription (description e)]))) = (s1, log @ ?d # extra)"
    by (cases "failed e"; cases "unexpectedExitStatus e") (auto split: option.splits)
  then obtain s1 extra where step: "(case failed e of
          Some action \<Rightarrow>
            (False, log @ [EventDescription (description e), FailedAction (code action) (cause action)])
        | None \<Rightarrow>
            (case unexpectedExitStatus e of
               Some action \<Rightarrow>
                 (if exitStatus action \<noteq> 0
                  then (False,
                        (case stderr action of
                           Some err \<Rightarrow> log @ [EventDescription (description e),
                                                ExitMessage (description e) err]
                         | None \<Rightarrow> log @ [EventDescription (description e)]))
                  else (success, log @ [EventDescription (description e)]))
             | None \<Rightarrow> (success, log @ [EventDescription (description e)]))) = (s1, log @ ?d # extra)"
    by blast
  from Cons.IH [of s1 "log @ ?d # extra"] obtain entries where
    e: "snd (events_pass es (s1, log @ ?d # extra)) = (log @ ?d # extra) @ entries"
    and s: "subseq (map (\<lambda>e. EventDescription (description e)) es) entries" by blast
  have "subseq (map (\<lambda>e. EventDescription (description e)) es) (extra @ entries)"
    using s by (simp add: subseq_drop_many)
  then have "subseq (map (\<lambda>e. EventDescription (description e)) (e # es)) (?d # extra @ entries)"
    by simp
  moreover have "snd (events_pass (e # es) (success, log)) = log @ (?d # extra @ entries)"
    using e step by simp
  ultimately show ?case by blast
qed

lemma retry_request_step:
  "request 0 = Inl ex \<Longrightarrow> 0 < attempts \<Longrightarrow>
   retry_request request timeout attempts sl =
     retry_request (\<lambda>k. request (Suc k)) (timeout * 2) (attempts - 1) (sl @ [timeout])"
  by (subst retry_request.simps) simp

lemma retry_request_exhausted:
  "request 0 = Inl ex \<Longrightarrow> attempts \<le> 0 \<Longrightarrow>
   retry_request request timeout attempts sl = (Inl (WorkflowError (Wrapped ex)), sl)"
  by (subst retry_request.simps) simp

lemma retry_request_success_at:
  "(\<forall>k < m. request k = Inl (errors k)) \<Longrightarrow> request m = Inr v \<Longrightarrow> int m \<le> attempts \<Longrightarrow>
   retry_request request timeout attempts sl =
     (Inr v, sl @ map (\<lambda>k. timeout * 2 ^ k) [0..<m])"
proof (induction m arbitrary: request errors timeout attempts sl)
  case 0
  then show ?case by (simp add: retry_request_first_success)
next
  case (Suc m)
  from Suc.prems have r0: "request 0 = Inl (errors 0)" by simp
  from Suc.prems have pos: "0 < attempts" by simp
  from Suc.prems have "\<forall>k < m. (\<lambda>k. request (Suc k)) k = Inl ((\<lambda>k. errors (Suc k)) k)" by simp
  moreover from Suc.prems have "(\<lambda>k. request (Suc k)) m = Inr v" by simp
  moreover from Suc.prems have "int m \<le> attempts - 1" by simp
  ultimately
  have IH: "retry_request (\<lambda>k. request (Suc k)) (timeout * 2) (attempts - 1) (sl @ [timeout]) =
     (Inr v, (sl @ [timeout]) @ map (\<lambda>k. timeout * 2 * 2 ^ k) [0..<m])"
    by (rule Suc.IH)
  have m: "map (\<lambda>k. timeout * 2 ^ k) [0..<Suc m] = timeout # map (\<lambda>k. timeout * 2 * 2 ^ k) [0..<m]"
    by (simp add: upt_conv_Cons map_Suc_upt [symmetric] del: upt_Suc)
  from retry_request_step [where request = request, OF r0 pos] IH m show ?case by simp
qed

text \<open>If the objects of \<^verbatim>\<open>active_jobs\<close> had the attributes \<^verbatim>\<open>jobname\<close> and \<^verbatim>\<open>jobid\<close>: a
  status request that fails at each of its four executions is slept on three times and
  reported with the wrapped error.\<close>

lemma query_status_all_fail:
  assumes "jobname j = Some name" and "jobid j = Some i"
    and "\<forall>k \<le> 3. operations_get rem name k = Inl (errors k)"
  shows "query_status rem j st self =
           (Continue [ReportError (external_jobid j)
                        (ErrorText (WorkflowError (Wrapped (errors 3))))],
            (debug (CheckingStatus i) self)\<lparr>slept := slept self @ [2, 4, 8]\<rparr>)"
proof -
  have "retry_request (operations_get rem name) 2 (int 3) (slept self) =
          (Inl (WorkflowError (Wrapped (errors 3))), slept self @ map (\<lambda>k. 2 * 2 ^ k) [0..<3])"
    using assms(3) by (rule retry_request_all_fail)
  moreover have "map (\<lambda>k. (2::int) * 2 ^ k) [0..<3] = [2, 4, 8]"
    by (simp add: upt_rec)
  ultimately show ?thesis
    using assms(1,2) by (simp add: query_status_def retry_request_default_def debug_def)
qed

text \<open>
  Claim C4, as the code has it. The wrapper consults no predicate. Whatever the error
  is, a failed execution with attempts left sleeps the current delay and goes on as the
  wrapper does on the remaining executions with the doubled delay and one attempt less;
  a failed execution with no attempt left raises \<^verbatim>\<open>WorkflowError\<close> around the error,
  without sleeping; a successful execution returns its result without sleeping. So a
  request that fails \<open>m\<close> times and then succeeds, with at least \<open>m\<close> attempts, returns
  the result after \<open>m\<close> sleeps of doubling delays, and a request that fails at each of
  its first \<open>n + 1\<close> executions, called with \<open>n\<close> attempts, sleeps \<open>n\<close> times, doubling the
  delay, and then raises \<^verbatim>\<open>WorkflowError\<close> around the last error.
\<close>

theorem retry_request_any_error:
  "(request 0 = Inl ex \<longrightarrow> 0 < attempts \<longrightarrow>
      retry_request request timeout attempts sl =
        retry_request (\<lambda>k. request (Suc k)) (timeout * 2) (attempts - 1) (sl @ [timeout]))
   \<and> (request 0 = Inl ex \<longrightarrow> attempts \<le> 0 \<longrightarrow>
        retry_request request timeout attempts sl = (Inl (WorkflowError (Wrapped ex)), sl))
   \<and> (request 0 = Inr v \<longrightarrow> retry_request request timeout attempts sl = (Inr v, sl))
   \<and> ((\<forall>k < m. request k = Inl (errors k)) \<longrightarrow> request m = Inr v' \<longrightarrow> int m \<le> attempts \<longrightarrow>
        retry_request request timeout attempts sl =
          (Inr v', sl @ map (\<lambda>k. timeout * 2 ^ k) [0..<m]))
   \<and> ((\<forall>k \<le> n. request k = Inl (errors k)) \<longrightarrow>
        retry_request request timeout (int n) sl =
          (Inl (WorkflowError (Wrapped (errors n))), sl @ map (\<lambda>k. timeout * 2 ^ k) [0..<n]))"
proof (intro conjI impI)
  assume "request 0 = Inl ex" and "0 < attempts"
  then show "retry_request request timeout attempts sl =
        retry_request (\<lambda>k. request (Suc k)) (timeout * 2) (attempts - 1) (sl @ [timeout])"
    by (rule retry_request_step)
next
  assume "request 0 = Inl ex" and "attempts \<le> 0"
  then show "retry_request request timeout attempts sl = (Inl (WorkflowError (Wrapped ex)), sl)"
    by (rule retry_request_exhausted)
next
  assume "request 0 = Inr v"
  then show "retry_request request timeout attempts sl = (Inr v, sl)"
    by (rule retry_request_first_success)
next
  assume "\<forall>k < m. request k = Inl (errors k)" and "request m = Inr v'" and "int m \<le> attempts"
  then show "retry_request request timeout attempts sl =
          (Inr v', sl @ map (\<lambda>k. timeout * 2 ^ k) [0..<m])"
    by (rule retry_request_success_at)
next
  assume "\<forall>k \<le> n. request k = Inl (errors k)"
  then show "retry_request request timeout (int n) sl =
          (Inl (WorkflowError (Wrapped (errors n))), sl @ map (\<lambda>k. timeout * 2 ^ k) [0..<n])"
    by (rule retry_request_all_fail)
qed

theorem retry_request_any_error_witness:
  "permission_denied 0 = Inl (HttpError 403 ''permission denied'')
   \<and> permission_denied 1 = Inl (HttpError 403 ''permission denied'')
   \<and> permission_denied 2 = Inl (HttpError 403 ''permission denied'')
   \<and> permission_denied 3 = Inl (HttpError 403 ''permission denied'')
   \<and> retry_request permission_denied 2 (int 3) [] =
       (Inl (WorkflowError (Wrapped (HttpError 403 ''permission denied''))), [2, 4, 8])
   \<and> retry_request permission_denied 2 3 [] =
       retry_request (\<lambda>k. permission_denied (Suc k)) 4 2 [2]
   \<and> retry_request permission_denied 2 0 [] =
       (Inl (WorkflowError (Wrapped (HttpError 403 ''permission denied''))), [])
   \<and> flaky_request 0 = Inl BrokenPipeError
   \<and> flaky_request 1 = Inl BrokenPipeError
   \<and> flaky_request 2 = Inr ()
   \<and> retry_request flaky_request 2 3 [] = (Inr (), [2, 4])
   \<and> retry_request (\<lambda>k. flaky_request (k + 2)) 8 1 [2, 4] = (Inr (), [2, 4])"
  using retry_request_any_error [where request = permission_denied
      and ex = "HttpError 403 ''permission denied''" and attempts = 3 and timeout = 2
      and sl = "[]" and n = 3 and errors = "\<lambda>k. HttpError 403 ''permission denied''"
      and m = 0 and v = "()" and v' = "()"]
    retry_request_any_error [where request = permission_denied
      and ex = "HttpError 403 ''permission denied''" and attempts = 0 and timeout = 2
      and sl = "[]" and n = 0 and errors = "\<lambda>k. HttpError 403 ''permission denied''"
      and m = 0 and v = "()" and v' = "()"]
    retry_request_any_error [where request = flaky_request
      and ex = BrokenPipeError and attempts = 3 and timeout = 2
      and sl = "[]" and n = 0 and errors = "\<lambda>k. BrokenPipeError"
      and m = 2 and v = "()" and v' = "()"]
    retry_request_any_error [where request = "\<lambda>k. flaky_request (k + 2)"
      and ex = BrokenPipeError and attempts = 1 and timeout = 8
      and sl = "[2, 4]" and n = 0 and errors = "\<lambda>k. BrokenPipeError"
      and m = 0 and v = "()" and v' = "()"]
  by (auto simp add: permission_denied_def flaky_request_def upt_rec)

text \<open>Claim C4 as stated fails: a refused request (HTTP 403) is not propagated at once; the
  wrapper sleeps 2, 4 and 8 seconds, uses up its three attempts and raises a
  \<^verbatim>\<open>WorkflowError\<close>.\<close>

theorem retry_request_permission_denied:
  "retry_request_default permission_denied [] =
     (Inl (WorkflowError (Wrapped (HttpError 403 ''permission denied''))), [2, 4, 8])
   \<and> retry_request_default permission_denied [] \<noteq> (Inl (HttpError 403 ''permission denied''), [])"
  by (simp add: retry_request_default_def retry_request.simps permission_denied_def)

text \<open>
  Claim C3 at its failing input. An active job as \<^verbatim>\<open>run_job\<close> builds it has no attribute
  \<^verbatim>\<open>jobname\<close>: the polling raises \<^verbatim>\<open>AttributeError\<close> at line 287, when it builds the status
  request of the first job. Whatever the remote would answer, no request is executed,
  nothing is slept, no job is reported and none is yielded; so also for a job whose
  operation is gone (HTTP 404).
\<close>

theorem poll_raises_attribute_error:
  "check_active_jobs rem (submitted_job_info result_name # rest) self =
     (Some (AttributeError ''jobname''), [], self)
   \<and> check_active_jobs not_found_remote [lost_job] example_executor =
       (Some (AttributeError ''jobname''), [], example_executor)"
  by (simp add: check_active_jobs_def query_status_def submitted_job_info_def lost_job_def)

text \<open>
  Claim C6. The verdict of \<^verbatim>\<open>_job_was_successful\<close> is success exactly when no event has
  a \<^verbatim>\<open>failed\<close> record and no event has an \<^verbatim>\<open>unexpectedExitStatus\<close> with a non-zero exit
  status: one event with a non-zero exit status gives failure, events with exit status
  zero only give success, no event gives success. Every event is visited: the debug log
  grows by entries among which the descriptions of all events appear, in their order.
\<close>

theorem job_was_successful_iff:
  "(fst (job_was_successful st self) \<longleftrightarrow>
      (\<forall>e \<in> set (events st).
         failed e = None \<and> (\<forall>a. unexpectedExitStatus e = Some a \<longrightarrow> exitStatus a = 0)))
   \<and> ((\<exists>e \<in> set (events st). \<exists>a. unexpectedExitStatus e = Some a \<and> exitStatus a \<noteq> 0) \<longrightarrow>
        \<not> fst (job_was_successful st self))
   \<and> (events st = [] \<longrightarrow> fst (job_was_successful st self))
   \<and> (\<exists>entries. debug_log (snd (job_was_successful st self)) = debug_log self @ entries
         \<and> subseq (map (\<lambda>e. EventDescription (description e)) (events st)) entries)"
proof -
  obtain success log where ep: "events_pass (events st) (True, debug_log self) = (success, log)"
    by (cases "events_pass (events st) (True, debug_log self)") auto
  then have res: "job_was_successful st self = (success, self\<lparr>debug_log := log\<rparr>)"
    by (simp add: job_was_successful_def)
  from events_pass_flag [of "events st" True "debug_log self"] ep
  have flag: "success \<longleftrightarrow>
      (\<forall>e \<in> set (events st).
         failed e = None \<and> (\<forall>a. unexpectedExitStatus e = Some a \<longrightarrow> exitStatus a = 0))"
    by simp
  from events_pass_log [of "events st" True "debug_log self"] ep
  have log: "\<exists>entries. log = debug_log self @ entries
         \<and> subseq (map (\<lambda>e. EventDescription (description e)) (events st)) entries"
    by simp
  from flag have "(\<exists>e \<in> set (events st). \<exists>a. unexpectedExitStatus e = Some a \<and> exitStatus a \<noteq> 0) \<longrightarrow>
        \<not> success" by blast
  moreover from flag have "events st = [] \<longrightarrow> success" by simp
  ultimately show ?thesis using flag log res by simp
qed

theorem job_was_successful_iff_witness:
  "\<not> fst (job_was_successful failed_status example_executor)
   \<and> debug_log (snd (job_was_successful failed_status example_executor)) =
       [EventDescription ''Unexpected exit status 1 while running action'',
        ExitMessage ''Unexpected exit status 1 while running action'' ''boom'',
        EventDescription ''Worker released'']"
  using job_was_successful_iff [of failed_status example_executor]
  by (simp add: job_was_successful_def failed_status_def example_executor_def)

section \<open>Properties of the catalog and of the source package\<close>

text \<open>
  Claim C5 at its failing input. With one zone selected, lines 412-414 take the machine
  types of that zone as the base and leave nothing to compare with, so the filters of
  lines 420-421 never run: the shared-core and the E2 machine type are returned. With
  the two zones of the region they are removed.
\<close>

theorem single_zone_keeps_micro:
  "fst (get_available_machine_types micro_remote zone_executor) =
     Inr [(''f1-micro'', f1_micro), (''e2-medium'', e2_medium), (''n1-standard-1'', n1_standard_1)]
   \<and> contains ''micro'' (mt_name f1_micro)
   \<and> prefix ''e2'' (mt_name e2_medium)
   \<and> fst (get_available_machine_types micro_remote example_executor) =
       Inr [(''n1-standard-1'', n1_standard_1)]"
  by (simp add: get_available_machine_types_def micro_remote_def zone_executor_def
      example_remote_def example_executor_def retry_request_default_def retry_request.simps
      zone_in_regions_def shared_machine_types_def f1_micro_def e2_medium_def
      n1_standard_1_def zone_names_def AList.delete_eq)

lemma generate_build_source_package_result:
  assumes "generate_build_source_package pf tmpname self = (Inr targz, self1)"
  shows "\<exists>members.
           archive_members (local_files self) (workdir self) (workflow_sources self) = Inr members
           \<and> first_outside (realpath pf) (workdir self) (workflow_sources self) = None
           \<and> targz = path_join (aux_path self)
                 (''workdir-'' @ sha256_hexdigest pf
                    (targz_bytes pf (path_join (tempdir pf) (''snakemake-'' @ tmpname @ ''.tar.gz''))
                       members) @ ''.tar.gz'')
           \<and> build_packages self1 = List.insert targz (build_packages self)
           \<and> self1 = self\<lparr>local_files := local_files self1, build_packages := build_packages self1\<rparr>"
  using assms
  by (auto simp: generate_build_source_package_def Let_def split: option.splits sum.splits if_splits)

lemma upload_build_source_package_result:
  assumes "upload_build_source_package targz self = (Inr u, self1)"
  shows "bucket self1 (''source/cache/'' @ basename targz) \<noteq> None
         \<and> pipeline_package self1 = Some (''source/cache/'' @ basename targz)
         \<and> build_packages self1 = build_packages self
         \<and> save_storage_cache self1 = save_storage_cache self
         \<and> local_files self1 = local_files self
         \<and> (bucket self (''source/cache/'' @ basename targz) \<noteq> None \<longrightarrow>
               uploads self1 = uploads self \<and> bucket self1 = bucket self)
         \<and> length (uploads self1) \<le> length (uploads self) + 1"
  using assms
  by (auto simp: upload_build_source_package_def Let_def debug_def split: option.splits)

lemma path_join_absolute:
  "prefix ''/'' a \<Longrightarrow> prefix ''/'' (path_join a b)"
  by (cases a) (auto simp: path_join_def)

lemma delete_packages_other:
  "name \<notin> set packages \<Longrightarrow> bucket (delete_packages packages self) name = bucket self name"
  by (induction packages arbitrary: self) (auto simp: debug_def split: option.splits)

text \<open>
  Claim C7 at its failing inputs. The set \<^verbatim>\<open>_build_packages\<close> holds the local path of
  the package, while the blob was uploaded as \<^verbatim>\<open>source/cache/\<close> and the base name. With
  an absolute \<open>aux_path\<close> the two names differ, and \<^verbatim>\<open>shutdown\<close> without retention leaves
  the uploaded blob of every executor in the bucket.
\<close>

theorem shutdown_keeps_uploaded_package:
  "init_build_package pf tmpname self = (Inr targz, self1) \<longrightarrow>
   \<not> save_storage_cache self \<longrightarrow> prefix ''/'' (aux_path self) \<longrightarrow>
     build_packages self1 = [targz]
     \<and> \<not> save_storage_cache self1
     \<and> bucket self1 (''source/cache/'' @ basename targz) \<noteq> None
     \<and> bucket (shutdown self1) (''source/cache/'' @ basename targz) =
         bucket self1 (''source/cache/'' @ basename targz)"
proof (intro impI)
  assume init: "init_build_package pf tmpname self = (Inr targz, self1)"
    and keep: "\<not> save_storage_cache self" and abs: "prefix ''/'' (aux_path self)"
  from init obtain self0 u where
    gen: "generate_build_source_package pf tmpname (self\<lparr>build_packages := []\<rparr>) = (Inr targz, self0)"
    and up: "upload_build_source_package targz self0 = (Inr u, self1)"
    by (auto simp: init_build_package_def split: prod.splits sum.splits)
  from generate_build_source_package_result [OF gen] obtain members where
    targz: "targz = path_join (aux_path self)
                 (''workdir-'' @ sha256_hexdigest pf
                    (targz_bytes pf (path_join (tempdir pf) (''snakemake-'' @ tmpname @ ''.tar.gz''))
                       members) @ ''.tar.gz'')"
    and bp0: "build_packages self0 = [targz]"
    and self0: "self0 = (self\<lparr>build_packages := []\<rparr>)\<lparr>local_files := local_files self0,
                    build_packages := build_packages self0\<rparr>"
    by auto
  from self0 have "save_storage_cache self0 = save_storage_cache (self\<lparr>build_packages := []\<rparr>)"
    by (metis executor.select_convs(5) executor.surjective executor.update_convs(6) executor.update_convs(17))
  with keep have keep0: "\<not> save_storage_cache self0" by simp
  from upload_build_source_package_result [OF up] bp0 keep0
  have bp: "build_packages self1 = [targz]" and keep1: "\<not> save_storage_cache self1"
    and blob: "bucket self1 (''source/cache/'' @ basename targz) \<noteq> None"
    by auto
  from targz abs have "prefix ''/'' targz" by (simp add: path_join_absolute)
  then have "''source/cache/'' @ basename targz \<noteq> targz" by (cases targz) auto
  then have "''source/cache/'' @ basename targz \<notin> set [targz]" by simp
  from delete_packages_other [OF this]
  have "bucket (shutdown self1) (''source/cache/'' @ basename targz) =
          bucket self1 (''source/cache/'' @ basename targz)"
    using keep1 bp by (simp add: shutdown_def)
  with bp keep1 blob
  show "build_packages self1 = [targz]
     \<and> \<not> save_storage_cache self1
     \<and> bucket self1 (''source/cache/'' @ basename targz) \<noteq> None
     \<and> bucket (shutdown self1) (''source/cache/'' @ basename targz) =
         bucket self1 (''source/cache/'' @ basename targz)" by simp
qed

theorem shutdown_keeps_uploaded_package_witness:
  "fst (init_build_package example_platform ''k3x9'' example_executor) =
     Inr ''/w/.snakemake/auxiliary/workdir-9f86d081.tar.gz''
   \<and> \<not> save_storage_cache example_executor
   \<and> prefix ''/'' (aux_path example_executor)
   \<and> bucket (shutdown (snd (init_build_package example_platform ''k3x9'' example_executor)))
        ''source/cache/workdir-9f86d081.tar.gz'' = Some ''Snakefilerule all''"
  using shutdown_keeps_uploaded_package [of example_platform "''k3x9''" example_executor
      "''/w/.snakemake/auxiliary/workdir-9f86d081.tar.gz''"
      "snd (init_build_package example_platform ''k3x9'' example_executor)"]
  by (simp add: init_build_package_def generate_build_source_package_def
      upload_build_source_package_def example_platform_def example_executor_def
      path_join_def basename_def debug_def Let_def shutdown_def)

text \<open>
  Claim C8 at its failing input. The test of line 696 is a substring test: a file whose
  real path \<^verbatim>\<open>/x/w/f\<close> only contains the working directory \<^verbatim>\<open>/w\<close>, without lying under
  it, passes, and the package is built with it (as member \<^verbatim>\<open>/xf\<close>) instead of the error.
\<close>

theorem outside_source_is_packaged:
  "realpath pf ''/x/w/f'' = ''/x/w/f'' \<longrightarrow> workdir self = ''/w'' \<longrightarrow>
   workflow_sources self = [''/x/w/f''] \<longrightarrow> local_files self ''/x/w/f'' = Some content \<longrightarrow>
     \<not> prefix (workdir self @ ''/'') (realpath pf ''/x/w/f'')
     \<and> first_outside (realpath pf) (workdir self) (workflow_sources self) = None
     \<and> fst (generate_build_source_package pf tmpname self) =
         Inr (path_join (aux_path self)
                (''workdir-'' @ sha256_hexdigest pf
                   (targz_bytes pf (path_join (tempdir pf) (''snakemake-'' @ tmpname @ ''.tar.gz''))
                      [(''/xf'', content)]) @ ''.tar.gz''))"
  by (simp add: generate_build_source_package_def Let_def)

theorem outside_source_is_packaged_witness:
  "realpath example_platform ''/x/w/f'' = ''/x/w/f''
   \<and> workdir outside_executor = ''/w''
   \<and> workflow_sources outside_executor = [''/x/w/f'']
   \<and> local_files outside_executor ''/x/w/f'' = Some ''data''
   \<and> fst (generate_build_source_package example_platform ''k3x9'' outside_executor) =
       Inr ''/w/.snakemake/auxiliary/workdir-9f86d081.tar.gz''"
  using outside_source_is_packaged [of example_platform outside_executor "''data''" "''k3x9''"]
  by (simp add: example_platform_def outside_executor_def example_executor_def path_join_def)

lemma archive_members_cong:
  "(\<forall>f \<in> set sources. files' f = files f) \<Longrightarrow>
     archive_members files' wd sources = archive_members files wd sources"
  by (induction sources) (auto split: option.splits sum.splits)

lemma generate_build_source_package_frame:
  "generate_build_source_package pf tmpname self = (r, self1) \<Longrightarrow>
     workdir self1 = workdir self \<and> workflow_sources self1 = workflow_sources self
     \<and> aux_path self1 = aux_path self \<and> bucket self1 = bucket self
     \<and> uploads self1 = uploads self"
  by (auto simp: generate_build_source_package_def Let_def split: option.splits sum.splits if_splits)

lemma upload_build_source_package_frame:
  "upload_build_source_package targz self = (r, self1) \<Longrightarrow>
     workdir self1 = workdir self \<and> workflow_sources self1 = workflow_sources self
     \<and> aux_path self1 = aux_path self \<and> local_files self1 = local_files self"
  by (auto simp: upload_build_source_package_def Let_def debug_def split: option.splits)

lemma upload_build_source_package_known:
  "bucket self (''source/cache/'' @ basename targz) \<noteq> None \<Longrightarrow>
     \<exists>self1. upload_build_source_package targz self = (Inr (), self1)
            \<and> uploads self1 = uploads self \<and> bucket self1 = bucket self"
  by (auto simp: upload_build_source_package_def Let_def debug_def split: option.splits)

lemma generate_build_source_package_succeeds:
  assumes "first_outside (realpath pf) (workdir self) (workflow_sources self) = None"
    and "archive_members (local_files self) (workdir self) (workflow_sources self) = Inr members"
  shows "\<exists>self1. generate_build_source_package pf tmpname self =
           (Inr (path_join (aux_path self)
                   (''workdir-'' @ sha256_hexdigest pf
                      (targz_bytes pf (path_join (tempdir pf) (''snakemake-'' @ tmpname @ ''.tar.gz''))
                         members) @ ''.tar.gz'')), self1)
           \<and> bucket self1 = bucket self \<and> uploads self1 = uploads self"
  using assms by (simp add: generate_build_source_package_def Let_def)

text \<open>
  What the dedup checks would give with an archive writer whose bytes depend on the
  members only, not on the path it writes to: a second packaging of the same sources
  returns the same package and uploads nothing. The \<^verbatim>\<open>w:gz\<close> writer of \<^verbatim>\<open>tarfile\<close> is
  not of that kind.
\<close>

lemma packaging_deterministic_writer:
  "(\<forall>p q ms. targz_bytes pf p ms = targz_bytes pf q ms) \<longrightarrow>
   init_build_package pf tmp1 self = (Inr p1, self1) \<longrightarrow>
   (\<forall>f \<in> set (workflow_sources self). local_files self1 f = local_files self f) \<longrightarrow>
     (\<exists>self2. init_build_package pf tmp2 self1 = (Inr p1, self2)
              \<and> uploads self2 = uploads self1 \<and> bucket self2 = bucket self1)
     \<and> length (uploads self1) \<le> length (uploads self) + 1
     \<and> (\<exists>members.
           archive_members (local_files self) (workdir self) (workflow_sources self) = Inr members
           \<and> p1 = path_join (aux_path self)
                    (''workdir-'' @ sha256_hexdigest pf
                       (targz_bytes pf (path_join (tempdir pf) (''snakemake-'' @ tmp1 @ ''.tar.gz''))
                          members) @ ''.tar.gz''))
     \<and> pipeline_package self1 = Some (''source/cache/'' @ basename p1)
     \<and> bucket self1 (''source/cache/'' @ basename p1) \<noteq> None"
proof (intro impI)
  assume det: "\<forall>p q ms. targz_bytes pf p ms = targz_bytes pf q ms"
    and init: "init_build_package pf tmp1 self = (Inr p1, self1)"
    and same: "\<forall>f \<in> set (workflow_sources self). local_files self1 f = local_files self f"
  let ?start = "self\<lparr>build_packages := []\<rparr>"
  let ?name = "\<lambda>tmp. path_join (tempdir pf) (''snakemake-'' @ tmp @ ''.tar.gz'')"
  from init obtain self0 u where
    gen: "generate_build_source_package pf tmp1 ?start = (Inr p1, self0)"
    and up: "upload_build_source_package p1 self0 = (Inr u, self1)"
    by (auto simp: init_build_package_def split: prod.splits sum.splits)
  from generate_build_source_package_result [OF gen] obtain members where
    members: "archive_members (local_files self) (workdir self) (workflow_sources self) = Inr members"
    and inside: "first_outside (realpath pf) (workdir self) (workflow_sources self) = None"
    and p1: "p1 = path_join (aux_path self)
                 (''workdir-'' @ sha256_hexdigest pf (targz_bytes pf (?name tmp1) members) @ ''.tar.gz'')"
    by auto
  from generate_build_source_package_frame [OF gen]
  have f0: "workdir self0 = workdir self" "workflow_sources self0 = workflow_sources self"
    "aux_path self0 = aux_path self" "uploads self0 = uploads self"
    by simp_all
  from upload_build_source_package_frame [OF up] f0
  have f1: "workdir self1 = workdir self" "workflow_sources self1 = workflow_sources self"
    "aux_path self1 = aux_path self"
    by simp_all
  from upload_build_source_package_result [OF up] f0
  have blob: "bucket self1 (''source/cache/'' @ basename p1) \<noteq> None"
    and pp: "pipeline_package self1 = Some (''source/cache/'' @ basename p1)"
    and once: "length (uploads self1) \<le> length (uploads self) + 1"
    by simp_all
  let ?again = "self1\<lparr>build_packages := []\<rparr>"
  have "archive_members (local_files ?again) (workdir ?again) (workflow_sources ?again) =
          archive_members (local_files self) (workdir self) (workflow_sources self)"
    using archive_members_cong [of "workflow_sources self" "local_files self1" "local_files self"
        "workdir self"] same f1 by simp
  with members have members2:
    "archive_members (local_files ?again) (workdir ?again) (workflow_sources ?again) = Inr members"
    by simp
  from inside f1 have inside2:
    "first_outside (realpath pf) (workdir ?again) (workflow_sources ?again) = None" by simp
  from generate_build_source_package_succeeds [OF inside2 members2, of tmp2]
  obtain self2 where gen2: "generate_build_source_package pf tmp2 ?again =
           (Inr (path_join (aux_path ?again)
                   (''workdir-'' @ sha256_hexdigest pf (targz_bytes pf (?name tmp2) members) @ ''.tar.gz'')),
            self2)"
    and b2: "bucket self2 = bucket ?again" and u2: "uploads self2 = uploads ?again"
    by blast
  from det have "targz_bytes pf (?name tmp2) members = targz_bytes pf (?name tmp1) members"
    by blast
  with gen2 p1 f1 have gen2': "generate_build_source_package pf tmp2 ?again = (Inr p1, self2)"
    by simp
  from blob b2 have "bucket self2 (''source/cache/'' @ basename p1) \<noteq> None" by simp
  from upload_build_source_package_known [OF this] obtain self3 where
    up2: "upload_build_source_package p1 self2 = (Inr (), self3)"
    and u3: "uploads self3 = uploads self2" and b3: "bucket self3 = bucket self2"
    by blast
  from gen2' up2 have "init_build_package pf tmp2 self1 = (Inr p1, self3)"
    by (simp add: init_build_package_def)
  moreover from u3 u2 have "uploads self3 = uploads self1" by simp
  moreover from b3 b2 have "bucket self3 = bucket self1" by simp
  ultimately have "\<exists>self2. init_build_package pf tmp2 self1 = (Inr p1, self2)
              \<and> uploads self2 = uploads self1 \<and> bucket self2 = bucket self1"
    by blast
  with once members p1 pp blob
  show "(\<exists>self2. init_build_package pf tmp2 self1 = (Inr p1, self2)
              \<and> uploads self2 = uploads self1 \<and> bucket self2 = bucket self1)
     \<and> length (uploads self1) \<le> length (uploads self) + 1
     \<and> (\<exists>members.
           archive_members (local_files self) (workdir self) (workflow_sources self) = Inr members
           \<and> p1 = path_join (aux_path self)
                    (''workdir-'' @ sha256_hexdigest pf
                       (targz_bytes pf (path_join (tempdir pf) (''snakemake-'' @ tmp1 @ ''.tar.gz''))
                          members) @ ''.tar.gz''))
     \<and> pipeline_package self1 = Some (''source/cache/'' @ basename p1)
     \<and> bucket self1 (''source/cache/'' @ basename p1) \<noteq> None"
    by blast
qed

lemma upload_build_source_package_new:
  "upload_build_source_package targz self = (Inr u, self1) \<Longrightarrow>
   bucket self (''source/cache/'' @ basename targz) = None \<Longrightarrow>
     uploads self1 = uploads self @ [''source/cache/'' @ basename targz]
     \<and> bucket self1 (''source/cache/'' @ basename targz) = local_files self targz
     \<and> local_files self targz \<noteq> None"
  by (auto simp: upload_build_source_package_def Let_def debug_def split: option.splits)

lemma path_join_inject:
  "\<not> prefix ''/'' b \<Longrightarrow> \<not> prefix ''/'' b' \<Longrightarrow> path_join a b = path_join a b' \<longleftrightarrow> b = b'"
  by (auto simp: path_join_def)

lemma gzip_fname_k3x9: "gzip_fname ''/tmp/snakemake-k3x9.tar.gz'' = ''snakemake-k3x9.tar''"
  by (simp add: gzip_fname_def endswith_def basename_def suffix_to_prefix)

lemma gzip_fname_q7zz: "gzip_fname ''/tmp/snakemake-q7zz.tar.gz'' = ''snakemake-q7zz.tar''"
  by (simp add: gzip_fname_def endswith_def basename_def suffix_to_prefix)

text \<open>
  Claim C9 at its failing input. \<^verbatim>\<open>tarfile.open(targz, "w:gz")\<close> writes a gzip header with
  the base name of the temporary file, which is drawn anew for each packaging, so the
  bytes of the archive, and with them the digest, depend on the temporary name and not
  on the members only. When the digests of the two archives differ, packaging the same
  sources a second time returns a package of another name, and, the store having no blob
  of that name, uploads it: one more upload for the same content. Each package is named
  by the digest of its own archive.
\<close>

theorem packaging_twice_uploads_twice:
  "init_build_package pf tmp1 self = (Inr p1, self1) \<longrightarrow>
   (\<forall>f \<in> set (workflow_sources self). local_files self1 f = local_files self f) \<longrightarrow>
   init_build_package pf tmp2 self1 = (Inr p2, self2) \<longrightarrow>
   archive_members (local_files self) (workdir self) (workflow_sources self) = Inr members \<longrightarrow>
   sha256_hexdigest pf
       (targz_bytes pf (path_join (tempdir pf) (''snakemake-'' @ tmp2 @ ''.tar.gz'')) members)
     \<noteq> sha256_hexdigest pf
         (targz_bytes pf (path_join (tempdir pf) (''snakemake-'' @ tmp1 @ ''.tar.gz'')) members) \<longrightarrow>
   bucket self1 (''source/cache/'' @ basename p2) = None \<longrightarrow>
     p1 = path_join (aux_path self)
            (''workdir-'' @ sha256_hexdigest pf
               (targz_bytes pf (path_join (tempdir pf) (''snakemake-'' @ tmp1 @ ''.tar.gz''))
                  members) @ ''.tar.gz'')
     \<and> p2 = path_join (aux_path self)
              (''workdir-'' @ sha256_hexdigest pf
                 (targz_bytes pf (path_join (tempdir pf) (''snakemake-'' @ tmp2 @ ''.tar.gz''))
                    members) @ ''.tar.gz'')
     \<and> p2 \<noteq> p1
     \<and> uploads self2 = uploads self1 @ [''source/cache/'' @ basename p2]
     \<and> bucket self2 (''source/cache/'' @ basename p2) \<noteq> None"
proof (intro impI)
  assume init: "init_build_package pf tmp1 self = (Inr p1, self1)"
    and same: "\<forall>f \<in> set (workflow_sources self). local_files self1 f = local_files self f"
    and init2: "init_build_package pf tmp2 self1 = (Inr p2, self2)"
    and members: "archive_members (local_files self) (workdir self) (workflow_sources self)
                    = Inr members"
    and differ: "sha256_hexdigest pf
       (targz_bytes pf (path_join (tempdir pf) (''snakemake-'' @ tmp2 @ ''.tar.gz'')) members)
     \<noteq> sha256_hexdigest pf
         (targz_bytes pf (path_join (tempdir pf) (''snakemake-'' @ tmp1 @ ''.tar.gz'')) members)"
    and fresh: "bucket self1 (''source/cache/'' @ basename p2) = None"
  let ?start = "self\<lparr>build_packages := []\<rparr>"
  let ?again = "self1\<lparr>build_packages := []\<rparr>"
  let ?name = "\<lambda>tmp. path_join (tempdir pf) (''snakemake-'' @ tmp @ ''.tar.gz'')"
  let ?digest = "\<lambda>tmp. sha256_hexdigest pf (targz_bytes pf (?name tmp) members)"
  from init obtain self0 u where
    gen: "generate_build_source_package pf tmp1 ?start = (Inr p1, self0)"
    and up: "upload_build_source_package p1 self0 = (Inr u, self1)"
    by (auto simp: init_build_package_def split: prod.splits sum.splits)
  from generate_build_source_package_result [OF gen] members
  have p1: "p1 = path_join (aux_path self) (''workdir-'' @ ?digest tmp1 @ ''.tar.gz'')"
    by auto
  from generate_build_source_package_frame [OF gen]
  have f0: "workdir self0 = workdir self" "workflow_sources self0 = workflow_sources self"
    "aux_path self0 = aux_path self"
    by simp_all
  from upload_build_source_package_frame [OF up] f0
  have f1: "workdir self1 = workdir self" "workflow_sources self1 = workflow_sources self"
    "aux_path self1 = aux_path self"
    by simp_all
  have "archive_members (local_files ?again) (workdir ?again) (workflow_sources ?again) =
          archive_members (local_files self) (workdir self) (workflow_sources self)"
    using archive_members_cong [of "workflow_sources self" "local_files self1" "local_files self"
        "workdir self"] same f1 by simp
  with members have members2:
    "archive_members (local_files ?again) (workdir ?again) (workflow_sources ?again) = Inr members"
    by simp
  from init2 obtain self3 u' where
    gen2: "generate_build_source_package pf tmp2 ?again = (Inr p2, self3)"
    and up2: "upload_build_source_package p2 self3 = (Inr u', self2)"
    by (auto simp: init_build_package_def split: prod.splits sum.splits)
  from generate_build_source_package_result [OF gen2] members2 f1
  have p2: "p2 = path_join (aux_path self) (''workdir-'' @ ?digest tmp2 @ ''.tar.gz'')"
    by auto
  from differ have "''workdir-'' @ ?digest tmp2 @ ''.tar.gz'' \<noteq> ''workdir-'' @ ?digest tmp1 @ ''.tar.gz''"
    by simp
  with p1 p2 have ne: "p2 \<noteq> p1" by (simp add: path_join_inject)
  from generate_build_source_package_frame [OF gen2] fresh
  have "bucket self3 (''source/cache/'' @ basename p2) = None"
    and "uploads self3 = uploads self1"
    by simp_all
  with upload_build_source_package_new [OF up2]
  have "uploads self2 = uploads self1 @ [''source/cache/'' @ basename p2]"
    and "bucket self2 (''source/cache/'' @ basename p2) \<noteq> None"
    by simp_all
  with p1 p2 ne
  show "p1 = path_join (aux_path self) (''workdir-'' @ ?digest tmp1 @ ''.tar.gz'')
     \<and> p2 = path_join (aux_path self) (''workdir-'' @ ?digest tmp2 @ ''.tar.gz'')
     \<and> p2 \<noteq> p1
     \<and> uploads self2 = uploads self1 @ [''source/cache/'' @ basename p2]
     \<and> bucket self2 (''source/cache/'' @ basename p2) \<noteq> None"
    by simp
qed

theorem packaging_twice_uploads_twice_witness:
  "init_build_package gzip_platform ''k3x9'' example_executor =
     (Inr ''/w/.snakemake/auxiliary/workdir-9f86d081.tar.gz'',
      snd (init_build_package gzip_platform ''k3x9'' example_executor))
   \<and> local_files (snd (init_build_package gzip_platform ''k3x9'' example_executor))
        ''/w/Snakefile'' = local_files example_executor ''/w/Snakefile''
   \<and> init_build_package gzip_platform ''q7zz''
        (snd (init_build_package gzip_platform ''k3x9'' example_executor)) =
       (Inr ''/w/.snakemake/auxiliary/workdir-2c26b46b.tar.gz'',
        snd (init_build_package gzip_platform ''q7zz''
               (snd (init_build_package gzip_platform ''k3x9'' example_executor))))
   \<and> archive_members (local_files example_executor) (workdir example_executor)
        (workflow_sources example_executor) = Inr [(''Snakefile'', ''rule all'')]
   \<and> sha256_hexdigest gzip_platform
        (targz_bytes gzip_platform ''/tmp/snakemake-q7zz.tar.gz'' [(''Snakefile'', ''rule all'')])
       = ''2c26b46b''
   \<and> sha256_hexdigest gzip_platform
        (targz_bytes gzip_platform ''/tmp/snakemake-k3x9.tar.gz'' [(''Snakefile'', ''rule all'')])
       = ''9f86d081''
   \<and> bucket (snd (init_build_package gzip_platform ''k3x9'' example_executor))
        ''source/cache/workdir-2c26b46b.tar.gz'' = None
   \<and> uploads (snd (init_build_package gzip_platform ''k3x9'' example_executor)) =
       [''source/cache/workdir-9f86d081.tar.gz'']
   \<and> uploads (snd (init_build_package gzip_platform ''q7zz''
                 (snd (init_build_package gzip_platform ''k3x9'' example_executor)))) =
       [''source/cache/workdir-9f86d081.tar.gz'', ''source/cache/workdir-2c26b46b.tar.gz'']"
  using packaging_twice_uploads_twice [where pf = gzip_platform and ?tmp1.0 = "''k3x9''"
      and self = example_executor
      and ?p1.0 = "''/w/.snakemake/auxiliary/workdir-9f86d081.tar.gz''"
      and ?self1.0 = "snd (init_build_package gzip_platform ''k3x9'' example_executor)"
      and ?tmp2.0 = "''q7zz''"
      and ?p2.0 = "''/w/.snakemake/auxiliary/workdir-2c26b46b.tar.gz''"
      and ?self2.0 = "snd (init_build_package gzip_platform ''q7zz''
                 (snd (init_build_package gzip_platform ''k3x9'' example_executor)))"
      and members = "[(''Snakefile'', ''rule all'')]"]
  by (simp add: init_build_package_def generate_build_source_package_def
      upload_build_source_package_def gzip_platform_def gzip_fname_k3x9 gzip_fname_q7zz
      example_executor_def path_join_def basename_def debug_def Let_def)

section \<open>Properties of the planning\<close>

lemma get_available_machine_types_frame:
  "get_available_machine_types rem self = (r, self') \<Longrightarrow>
     same_outside_planning self self' \<and> machine_type_prefix self' = machine_type_prefix self
     \<and> private_machine_type_prefix self' = private_machine_type_prefix self
     \<and> default_resources self' = default_resources self
     \<and> debug_log self' = debug_log self"
  by (auto simp: get_available_machine_types_def same_outside_planning_def Let_def
      split: prod.splits sum.splits)

lemma get_available_machine_types_default_resources:
  "get_available_machine_types rem (self\<lparr>default_resources := d\<rparr>) =
     (case get_available_machine_types rem self of (r, self') \<Rightarrow> (r, self'\<lparr>default_resources := d\<rparr>))"
  by (auto simp: get_available_machine_types_def Let_def split: prod.splits sum.splits)

lemma get_accelerator_frame:
  "get_accelerator rem g zone model self = (r, self') \<Longrightarrow>
     same_outside_planning self self' \<and> machine_type_prefix self' = machine_type_prefix self
     \<and> private_machine_type_prefix self' = private_machine_type_prefix self
     \<and> default_resources self' = default_resources self
     \<and> debug_log self' = debug_log self"
  by (auto simp: get_accelerator_def same_outside_planning_def Let_def
      split: option.splits prod.splits sum.splits list.splits)

lemma get_accelerator_default_resources:
  "get_accelerator rem g zone model (self\<lparr>default_resources := d\<rparr>) =
     (case get_accelerator rem g zone model self of
        (r, self') \<Rightarrow> (r, self'\<lparr>default_resources := d\<rparr>))"
  by (auto simp: get_accelerator_def Let_def
      split: option.splits prod.splits sum.splits list.splits)

lemma finish_plan_frame:
  assumes "finish_plan rem g model selected vm self = (r, self')"
  shows "same_outside_planning self self' \<and> machine_type_prefix self' = machine_type_prefix self
     \<and> private_machine_type_prefix self' = private_machine_type_prefix self
     \<and> default_resources self' = default_resources self
     \<and> debug_log self' = debug_log self"
proof (cases "truthy_int g")
  case None
  with assms have "self' = self" by (simp add: finish_plan_def)
  then show ?thesis by (simp add: same_outside_planning_def)
next
  case (Some n)
  obtain ra sa where ga: "get_accelerator rem g (mt_zone selected) model self = (ra, sa)"
    by (cases "get_accelerator rem g (mt_zone selected) model self")
  from assms Some ga have "self' = sa"
    by (auto simp: finish_plan_def split: sum.splits option.splits)
  with get_accelerator_frame [OF ga] show ?thesis by simp
qed

lemma finish_plan_default_resources:
  "fst (finish_plan rem g model selected vm (self\<lparr>default_resources := d\<rparr>)) =
     fst (finish_plan rem g model selected vm self)"
  by (auto simp: finish_plan_def get_accelerator_default_resources
      split: option.splits sum.splits prod.splits)

lemma add_gpu_frame:
  "add_gpu g self = (r, self') \<Longrightarrow>
     same_outside_planning self self' \<and> machine_type_prefix self' = machine_type_prefix self
     \<and> slept self' = slept self
     \<and> default_resources self' =
         (case truthy_int g of
            None \<Rightarrow> default_resources self
          | Some n \<Rightarrow> (default_resources self)(''nvidia_gpu'' \<mapsto> n))
     \<and> (truthy_int g = None \<longrightarrow>
           private_machine_type_prefix self' = private_machine_type_prefix self)"
  by (auto simp: add_gpu_def debug_def Let_def same_outside_planning_def split: option.splits)

lemma add_gpu_default_resources:
  "add_gpu g (self\<lparr>default_resources := d\<rparr>) =
     (case add_gpu g self of
        (r, self') \<Rightarrow>
          (r, self'\<lparr>default_resources :=
                     (case truthy_int g of None \<Rightarrow> d | Some n \<Rightarrow> d(''nvidia_gpu'' \<mapsto> n))\<rparr>))"
  by (auto simp: add_gpu_def debug_def Let_def split: option.splits)

lemma same_outside_planning_trans:
  "same_outside_planning a b \<Longrightarrow> same_outside_planning b c \<Longrightarrow> same_outside_planning a c"
  by (simp add: same_outside_planning_def)

text \<open>The steps of \<^verbatim>\<open>select_for_job\<close>, one at a time.\<close>

lemma select_for_job_steps:
  assumes "select_for_job rem cores mem_mb g j self = (r, self')"
  obtains (gpu_failed) self2 ex where
      "add_gpu g (self\<lparr>machine_type_prefix := res_machine_type (resources j)\<rparr>) = (Inl ex, self2)"
      "truthy_int g \<noteq> None" "r = Inl ex" "self' = self2"
    | (fetch_failed) self2 self3 u ex where
      "(if truthy_int g \<noteq> None
        then add_gpu g (self\<lparr>machine_type_prefix := res_machine_type (resources j)\<rparr>)
        else (Inr (), self\<lparr>machine_type_prefix := res_machine_type (resources j)\<rparr>)) = (Inr u, self2)"
      "get_available_machine_types rem self2 = (Inl ex, self3)" "r = Inl ex" "self' = self3"
    | (fetched) self2 self3 u machine_types where
      "(if truthy_int g \<noteq> None
        then add_gpu g (self\<lparr>machine_type_prefix := res_machine_type (resources j)\<rparr>)
        else (Inr (), self\<lparr>machine_type_prefix := res_machine_type (resources j)\<rparr>)) = (Inr u, self2)"
      "get_available_machine_types rem self2 = (Inr machine_types, self3)"
      "r = (case select_machine_type cores mem_mb (machine_type_prefix self3) machine_types of
              Inl ex \<Rightarrow> Inl ex | Inr (smallest, selected) \<Rightarrow> Inr (smallest, selected))"
      "\<exists>l. self' = self3\<lparr>debug_log := l\<rparr>"
proof -
  let ?self1 = "self\<lparr>machine_type_prefix := res_machine_type (resources j)\<rparr>"
  let ?gpu = "if truthy_int g \<noteq> None then add_gpu g ?self1 else (Inr (), ?self1)"
  obtain r2 self2 where g2: "?gpu = (r2, self2)" by (cases ?gpu)
  show thesis
  proof (cases r2)
    case (Inl ex)
    with g2 have "truthy_int g \<noteq> None" by (auto split: if_splits)
    with g2 Inl have a: "add_gpu g ?self1 = (Inl ex, self2)" by simp
    from assms g2 Inl have b: "r = Inl ex" and c: "self' = self2"
      by (simp_all add: select_for_job_def Let_def)
    from a \<open>truthy_int g \<noteq> None\<close> b c show thesis by (rule gpu_failed)
  next
    case (Inr u)
    obtain r3 self3 where g3: "get_available_machine_types rem self2 = (r3, self3)"
      by (cases "get_available_machine_types rem self2")
    show thesis
    proof (cases r3)
      case (Inl ex)
      from assms g2 Inr g3 Inl have b: "r = Inl ex" and c: "self' = self3"
        by (simp_all add: select_for_job_def Let_def)
      from g2 Inr have a: "?gpu = (Inr u, self2)" by simp
      from g3 Inl have a': "get_available_machine_types rem self2 = (Inl ex, self3)" by simp
      from a a' b c show thesis by (rule fetch_failed)
    next
      case mts: (Inr machine_types)
      from assms g2 Inr g3 mts
      have b: "r = (case select_machine_type cores mem_mb (machine_type_prefix self3) machine_types of
              Inl ex \<Rightarrow> Inl ex | Inr (smallest, selected) \<Rightarrow> Inr (smallest, selected))"
        and c: "\<exists>l. self' = self3\<lparr>debug_log := l\<rparr>"
        by (auto simp: select_for_job_def Let_def debug_def split: sum.splits prod.splits)
      from g2 Inr have a: "?gpu = (Inr u, self2)" by simp
      from g3 mts have a': "get_available_machine_types rem self2 = (Inr machine_types, self3)"
        by simp
      from a a' b c show thesis by (rule fetched)
    qed
  qed
qed


lemma select_for_job_frame:
  assumes "select_for_job rem cores mem_mb g j self = (r, self')"
  shows "same_outside_planning self self'
     \<and> machine_type_prefix self' = res_machine_type (resources j)
     \<and> default_resources self' =
         (case truthy_int g of
            None \<Rightarrow> default_resources self
          | Some n \<Rightarrow> (default_resources self)(''nvidia_gpu'' \<mapsto> n))
     \<and> (truthy_int g = None \<longrightarrow>
           private_machine_type_prefix self' = private_machine_type_prefix self)"
proof -
  let ?self1 = "self\<lparr>machine_type_prefix := res_machine_type (resources j)\<rparr>"
  have start: "same_outside_planning self ?self1" by (simp add: same_outside_planning_def)
  have gpu: "same_outside_planning self self2
     \<and> machine_type_prefix self2 = res_machine_type (resources j)
     \<and> slept self2 = slept self
     \<and> default_resources self2 =
         (case truthy_int g of
            None \<Rightarrow> default_resources self
          | Some n \<Rightarrow> (default_resources self)(''nvidia_gpu'' \<mapsto> n))
     \<and> (truthy_int g = None \<longrightarrow>
           private_machine_type_prefix self2 = private_machine_type_prefix self)"
    if "(if truthy_int g \<noteq> None then add_gpu g ?self1 else (Inr (), ?self1)) = (r2, self2)"
    for r2 self2
  proof (cases "truthy_int g")
    case None
    with that have "self2 = ?self1" by simp
    with None show ?thesis by (simp add: same_outside_planning_def)
  next
    case (Some n)
    with that have "add_gpu g ?self1 = (r2, self2)" by simp
    from add_gpu_frame [OF this] Some same_outside_planning_trans [OF start] show ?thesis
      by simp
  qed
  from assms show ?thesis
  proof (cases rule: select_for_job_steps)
    case (gpu_failed self2 ex)
    then have "(if truthy_int g \<noteq> None then add_gpu g ?self1 else (Inr (), ?self1)) = (Inl ex, self2)"
      by simp
    from gpu [OF this] gpu_failed show ?thesis by auto
  next
    case (fetch_failed self2 self3 u ex)
    from gpu [OF fetch_failed(1)] get_available_machine_types_frame [OF fetch_failed(2)]
      fetch_failed(4) same_outside_planning_trans [of self self2 self3]
    show ?thesis by simp
  next
    case (fetched self2 self3 u machine_types)
    from fetched(4) obtain l where l: "self' = self3\<lparr>debug_log := l\<rparr>" ..
    then have "same_outside_planning self3 self'" by (simp add: same_outside_planning_def)
    with gpu [OF fetched(1)] get_available_machine_types_frame [OF fetched(2)] l
      same_outside_planning_trans [of self self2 self3]
      same_outside_planning_trans [of self self3 self']
    show ?thesis by simp
  qed
qed

lemma select_for_job_prefix:
  "select_for_job rem cores mem_mb g j (self\<lparr>machine_type_prefix := p\<rparr>) =
     select_for_job rem cores mem_mb g j self"
  by (simp add: select_for_job_def)

lemma select_for_job_default_resources:
  "select_for_job rem cores mem_mb g j (self\<lparr>default_resources := d\<rparr>) =
     (case select_for_job rem cores mem_mb g j self of
        (r, self') \<Rightarrow>
          (r, self'\<lparr>default_resources :=
                     (case truthy_int g of None \<Rightarrow> d | Some n \<Rightarrow> d(''nvidia_gpu'' \<mapsto> n))\<rparr>))"
proof -
  let ?self1 = "self\<lparr>machine_type_prefix := res_machine_type (resources j)\<rparr>"
  define d' where "d' = (case truthy_int g of None \<Rightarrow> d | Some n \<Rightarrow> d(''nvidia_gpu'' \<mapsto> n))"
  obtain r2 self2 where
    g2: "(if truthy_int g \<noteq> None then add_gpu g ?self1 else (Inr (), ?self1)) = (r2, self2)"
    by (cases "if truthy_int g \<noteq> None then add_gpu g ?self1 else (Inr (), ?self1)")
  have g2': "(if truthy_int g \<noteq> None then add_gpu g (?self1\<lparr>default_resources := d\<rparr>)
              else (Inr (), ?self1\<lparr>default_resources := d\<rparr>)) =
             (r2, self2\<lparr>default_resources := d'\<rparr>)"
  proof (cases "truthy_int g")
    case None
    with g2 show ?thesis by (auto simp: d'_def)
  next
    case (Some n)
    with g2 have "add_gpu g ?self1 = (r2, self2)" by simp
    with Some show ?thesis by (simp add: add_gpu_default_resources d'_def)
  qed
  obtain r3 self3 where g3: "get_available_machine_types rem self2 = (r3, self3)"
    by (cases "get_available_machine_types rem self2")
  then have g3': "get_available_machine_types rem (self2\<lparr>default_resources := d'\<rparr>) =
                    (r3, self3\<lparr>default_resources := d'\<rparr>)"
    by (simp add: get_available_machine_types_default_resources)
  have start: "(self\<lparr>default_resources := d\<rparr>)\<lparr>machine_type_prefix := res_machine_type (resources j)\<rparr>
                 = ?self1\<lparr>default_resources := d\<rparr>"
    by simp
  have lhs: "select_for_job rem cores mem_mb g j (self\<lparr>default_resources := d\<rparr>) =
     (case r2 of
        Inl ex \<Rightarrow> (Inl ex, self2\<lparr>default_resources := d'\<rparr>)
      | Inr u \<Rightarrow>
          (case r3 of
             Inl ex \<Rightarrow> (Inl ex, self3\<lparr>default_resources := d'\<rparr>)
           | Inr machine_types \<Rightarrow>
               (case select_machine_type cores mem_mb (machine_type_prefix self3) machine_types of
                  Inl ex \<Rightarrow>
                    (Inl ex,
                     (debug (MachineTypesFound (length machine_types) (regions self3)) self3)
                       \<lparr>default_resources := d'\<rparr>)
                | Inr (smallest, selected) \<Rightarrow>
                    (Inr (smallest, selected),
                     (debug (SelectedMachineType smallest (mt_description selected))
                        (debug (MachineTypesFound (length machine_types) (regions self3)) self3))
                       \<lparr>default_resources := d'\<rparr>))))"
    unfolding select_for_job_def Let_def start g2'
    by (cases r2; cases r3) (simp_all add: g3' debug_def split: sum.splits prod.splits)
  have rhs: "select_for_job rem cores mem_mb g j self =
     (case r2 of
        Inl ex \<Rightarrow> (Inl ex, self2)
      | Inr u \<Rightarrow>
          (case r3 of
             Inl ex \<Rightarrow> (Inl ex, self3)
           | Inr machine_types \<Rightarrow>
               (case select_machine_type cores mem_mb (machine_type_prefix self3) machine_types of
                  Inl ex \<Rightarrow>
                    (Inl ex, debug (MachineTypesFound (length machine_types) (regions self3)) self3)
                | Inr (smallest, selected) \<Rightarrow>
                    (Inr (smallest, selected),
                     debug (SelectedMachineType smallest (mt_description selected))
                       (debug (MachineTypesFound (length machine_types) (regions self3)) self3)))))"
    unfolding select_for_job_def Let_def g2
    by (cases r2; cases r3) (simp_all add: g3 debug_def split: sum.splits prod.splits)
  show ?thesis
    unfolding lhs rhs d'_def [symmetric]
    by (cases r2; cases r3) (simp_all split: sum.splits prod.splits)
qed

lemma generate_job_resources_prefix:
  "generate_job_resources rem j (self\<lparr>machine_type_prefix := p\<rparr>) =
     (case res_mem_mb (resources j) of
        None \<Rightarrow> (Inl (WorkflowError NoMemoryResource), self\<lparr>machine_type_prefix := p\<rparr>)
      | Some mem_mb \<Rightarrow>
          (case res_disk_mb (resources j) of
             None \<Rightarrow> (Inl (WorkflowError NoDiskResource), self\<lparr>machine_type_prefix := p\<rparr>)
           | Some disk_mb \<Rightarrow> generate_job_resources rem j self))"
  by (simp add: generate_job_resources_def select_for_job_prefix split: option.splits)

lemma job_preemptible_default_resources:
  "job_preemptible j (self\<lparr>default_resources := d\<rparr>) = job_preemptible j self"
  by (simp add: job_preemptible_def)

lemma make_virtual_machine_default_resources:
  "make_virtual_machine smallest disk_mb preempt (self\<lparr>default_resources := d\<rparr>) =
     make_virtual_machine smallest disk_mb preempt self"
  by (simp add: make_virtual_machine_def)

lemma generate_job_resources_default_resources:
  "fst (generate_job_resources rem j (self\<lparr>default_resources := d\<rparr>)) =
     fst (generate_job_resources rem j self)"
proof (cases "res_mem_mb (resources j)")
  case None
  then show ?thesis by (simp add: generate_job_resources_def)
next
  case mem: (Some mem_mb)
  show ?thesis
  proof (cases "res_disk_mb (resources j)")
    case None
    with mem show ?thesis by (simp add: generate_job_resources_def)
  next
    case disk: (Some disk_mb)
    let ?cores = "case res_cores (resources j) of Some c \<Rightarrow> c | None \<Rightarrow> 1"
    let ?g = "requested_gpu_count (resources j)"
    obtain r1 self1 where sel: "select_for_job rem ?cores mem_mb ?g j self = (r1, self1)"
      by (cases "select_for_job rem ?cores mem_mb ?g j self")
    define d' where "d' = (case truthy_int ?g of None \<Rightarrow> d | Some n \<Rightarrow> d(''nvidia_gpu'' \<mapsto> n))"
    from sel have sel': "select_for_job rem ?cores mem_mb ?g j (self\<lparr>default_resources := d\<rparr>) =
        (r1, self1\<lparr>default_resources := d'\<rparr>)"
      by (simp add: select_for_job_default_resources d'_def)
    show ?thesis
    proof (cases r1)
      case (Inl ex)
      with mem disk sel sel' show ?thesis
        by (simp add: generate_job_resources_def Let_def)
    next
      case (Inr chosen)
      obtain smallest selected where chosen: "chosen = (smallest, selected)" by (cases chosen)
      show ?thesis
      proof (cases "job_preemptible j self1")
        case (Inl ex)
        with mem disk sel sel' Inr chosen show ?thesis
          by (simp add: generate_job_resources_def Let_def job_preemptible_default_resources)
      next
        case preempt: (Inr preempt)
        with mem disk sel sel' Inr chosen show ?thesis
          by (simp add: generate_job_resources_def Let_def job_preemptible_default_resources
              make_virtual_machine_default_resources finish_plan_default_resources)
      qed
    qed
  qed
qed

lemma generate_job_resources_independent:
  "fst (generate_job_resources rem j (self\<lparr>machine_type_prefix := p, default_resources := d\<rparr>)) =
     fst (generate_job_resources rem j self)"
proof -
  have "fst (generate_job_resources rem j (self\<lparr>machine_type_prefix := p, default_resources := d\<rparr>))
          = fst (generate_job_resources rem j (self\<lparr>machine_type_prefix := p\<rparr>))"
    by (rule generate_job_resources_default_resources)
  also have "\<dots> = fst (generate_job_resources rem j self)"
  proof (cases "res_mem_mb (resources j)")
    case None
    then show ?thesis by (simp add: generate_job_resources_def)
  next
    case mem: (Some mem_mb)
    show ?thesis
    proof (cases "res_disk_mb (resources j)")
      case None
      with mem show ?thesis by (simp add: generate_job_resources_def)
    next
      case (Some disk_mb)
      with mem show ?thesis by (simp add: generate_job_resources_prefix)
    qed
  qed
  finally show ?thesis .
qed

lemma generate_job_resources_frame:
  assumes "generate_job_resources rem j self = (r, self')"
  shows "same_outside_planning self self'
     \<and> (truthy_int (requested_gpu_count (resources j)) = None \<longrightarrow>
          default_resources self' = default_resources self
          \<and> private_machine_type_prefix self' = private_machine_type_prefix self)
     \<and> (res_mem_mb (resources j) \<noteq> None \<longrightarrow> res_disk_mb (resources j) \<noteq> None \<longrightarrow>
          machine_type_prefix self' = res_machine_type (resources j)
          \<and> default_resources self' =
              (case truthy_int (requested_gpu_count (resources j)) of
                 None \<Rightarrow> default_resources self
               | Some n \<Rightarrow> (default_resources self)(''nvidia_gpu'' \<mapsto> n)))"
proof (cases "res_mem_mb (resources j) = None \<or> res_disk_mb (resources j) = None")
  case True
  with assms have "self' = self"
    by (auto simp: generate_job_resources_def split: option.splits)
  with True show ?thesis by (auto simp: same_outside_planning_def)
next
  case False
  then obtain mem_mb disk_mb where res: "res_mem_mb (resources j) = Some mem_mb"
    "res_disk_mb (resources j) = Some disk_mb" by auto
  let ?cores = "case res_cores (resources j) of Some c \<Rightarrow> c | None \<Rightarrow> 1"
  let ?g = "requested_gpu_count (resources j)"
  obtain r1 self1 where sel: "select_for_job rem ?cores mem_mb ?g j self = (r1, self1)"
    by (cases "select_for_job rem ?cores mem_mb ?g j self")
  note f1 = select_for_job_frame [OF sel]
  have "same_outside_planning self1 self' \<and> machine_type_prefix self' = machine_type_prefix self1
     \<and> private_machine_type_prefix self' = private_machine_type_prefix self1
     \<and> default_resources self' = default_resources self1"
  proof (cases r1)
    case (Inl ex)
    with assms res sel have "self' = self1"
      by (simp add: generate_job_resources_def Let_def)
    then show ?thesis by (simp add: same_outside_planning_def)
  next
    case (Inr chosen)
    obtain smallest selected where chosen: "chosen = (smallest, selected)" by (cases chosen)
    show ?thesis
    proof (cases "job_preemptible j self1")
      case (Inl ex)
      with assms res sel Inr chosen have "self' = self1"
        by (simp add: generate_job_resources_def Let_def)
      then show ?thesis by (simp add: same_outside_planning_def)
    next
      case preempt: (Inr preempt)
      with assms res sel Inr chosen
      have "finish_plan rem ?g (res_gpu_model (resources j)) selected
              (make_virtual_machine smallest disk_mb preempt self1) self1 = (r, self')"
        by (simp add: generate_job_resources_def Let_def)
      from finish_plan_frame [OF this] show ?thesis by simp
    qed
  qed
  with f1 same_outside_planning_trans [of self self1 self'] res show ?thesis by simp
qed

lemma select_machine_type_falsy_prefix:
  "truthy_str pfx = None \<Longrightarrow>
     select_machine_type cores mem_mb pfx catalog = select_machine_type cores mem_mb None catalog"
  by (simp add: select_machine_type_def split: prod.splits list.splits)

lemma select_for_job_no_gpu:
  assumes g: "truthy_int g = None"
    and fetch: "get_available_machine_types rem
                  (self\<lparr>machine_type_prefix := res_machine_type (resources j)\<rparr>) = (Inr fetched, self1)"
    and sel: "select_machine_type cores mem_mb (res_machine_type (resources j)) fetched = Inr (s, sel)"
  shows "\<exists>self2. select_for_job rem cores mem_mb g j self = (Inr (s, sel), self2)
           \<and> same_outside_planning self self2"
proof -
  from get_available_machine_types_frame [OF fetch]
  have pre: "machine_type_prefix self1 = res_machine_type (resources j)"
    and frame: "same_outside_planning self self1"
    by (simp_all add: same_outside_planning_def)
  let ?self2 = "debug (SelectedMachineType s (mt_description sel))
                  (debug (MachineTypesFound (length fetched) (regions self1)) self1)"
  from g fetch sel pre have "select_for_job rem cores mem_mb g j self = (Inr (s, sel), ?self2)"
    by (simp add: select_for_job_def Let_def debug_def)
  moreover from frame have "same_outside_planning self ?self2"
    by (simp add: same_outside_planning_def debug_def)
  ultimately show ?thesis by blast
qed

lemma job_preemptible_frame:
  "same_outside_planning self self' \<Longrightarrow> job_preemptible j self' = job_preemptible j self"
  by (simp add: job_preemptible_def same_outside_planning_def)

lemma generate_job_resources_no_gpu:
  assumes mem: "res_mem_mb (resources j) = Some mem" and disk: "res_disk_mb (resources j) = Some disk"
    and g: "truthy_int (requested_gpu_count (resources j)) = None"
    and fetch: "get_available_machine_types rem
                  (self\<lparr>machine_type_prefix := res_machine_type (resources j)\<rparr>) = (Inr fetched, self1)"
    and sel: "select_machine_type (case res_cores (resources j) of Some c \<Rightarrow> c | None \<Rightarrow> 1) mem
                (res_machine_type (resources j)) fetched = Inr (s, sel)"
    and preempt: "job_preemptible j self = Inr preempt"
  shows "\<exists>plan self'. generate_job_resources rem j self = (Inr plan, self')
           \<and> machineType (virtualMachine plan) = s"
proof -
  from select_for_job_no_gpu [OF g fetch sel] obtain self2 where
    s2: "select_for_job rem (case res_cores (resources j) of Some c \<Rightarrow> c | None \<Rightarrow> 1) mem
           (requested_gpu_count (resources j)) j self = (Inr (s, sel), self2)"
    and frame: "same_outside_planning self self2"
    by blast
  from job_preemptible_frame [OF frame] preempt have p2: "job_preemptible j self2 = Inr preempt"
    by simp
  from mem disk s2 p2 g
  have "generate_job_resources rem j self =
          (Inr \<lparr>plan_regions = regions self2,
                virtualMachine = make_virtual_machine s disk preempt self2\<rparr>, self2)"
    by (simp add: generate_job_resources_def Let_def finish_plan_def)
  moreover have "machineType (make_virtual_machine s disk preempt self2) = s"
    by (simp add: make_virtual_machine_def)
  ultimately show ?thesis by simp
qed

lemma example_fetch:
  "get_available_machine_types example_remote example_executor =
     (Inr example_catalog, example_executor)"
  by (simp add: get_available_machine_types_def example_remote_def example_executor_def
      retry_request_default_def retry_request.simps zone_in_regions_def
      shared_machine_types_def example_catalog_def example_A_def example_B_def)

text \<open>
  Claim C1, as the code has it. When one machine type of the catalog has at least the
  requested cores and at least the requested memory, and no prefix is set, the selection
  succeeds with an entry of the catalog that satisfies both bounds. So does the selection
  step of the planning (lines 486-567) for a job that asks for no GPU and sets no prefix,
  once the catalog has been fetched: it returns an entry of the fetched catalog that
  satisfies both bounds.
\<close>

theorem selection_succeeds:
  "((n, m) \<in> set catalog \<longrightarrow> cores \<le> guestCpus m \<longrightarrow> mem_mb \<le> memoryMb m \<longrightarrow>
      truthy_str pfx = None \<longrightarrow>
      (\<exists>s sel. select_machine_type cores mem_mb pfx catalog = Inr (s, sel)
          \<and> (s, sel) \<in> set catalog \<and> cores \<le> guestCpus sel \<and> mem_mb \<le> memoryMb sel))
   \<and> (truthy_str (res_machine_type (resources j)) = None \<longrightarrow>
      truthy_int gpu_count = None \<longrightarrow>
      get_available_machine_types rem
        (self\<lparr>machine_type_prefix := res_machine_type (resources j)\<rparr>) = (Inr fetched, self1) \<longrightarrow>
      (n', m') \<in> set fetched \<longrightarrow> job_cores \<le> guestCpus m' \<longrightarrow> job_mem \<le> memoryMb m' \<longrightarrow>
      (\<exists>s sel self2. select_for_job rem job_cores job_mem gpu_count j self = (Inr (s, sel), self2)
          \<and> (s, sel) \<in> set fetched \<and> job_cores \<le> guestCpus sel \<and> job_mem \<le> memoryMb sel))"
proof (intro conjI impI)
  assume a: "(n, m) \<in> set catalog" "cores \<le> guestCpus m" "mem_mb \<le> memoryMb m"
    and p: "truthy_str pfx = None"
  from select_machine_type_succeeds [OF a] obtain s sel where
    "select_machine_type cores mem_mb None catalog = Inr (s, sel)" by blast
  with select_machine_type_falsy_prefix [OF p, of cores mem_mb catalog]
  have sel: "select_machine_type cores mem_mb pfx catalog = Inr (s, sel)" by simp
  from select_machine_type_sound [OF sel]
  have "(s, sel) \<in> set catalog \<and> cores \<le> guestCpus sel \<and> mem_mb \<le> memoryMb sel" .
  with sel
  show "\<exists>s sel. select_machine_type cores mem_mb pfx catalog = Inr (s, sel)
          \<and> (s, sel) \<in> set catalog \<and> cores \<le> guestCpus sel \<and> mem_mb \<le> memoryMb sel"
    by (intro exI [of _ s] exI [of _ sel]) simp
next
  assume p: "truthy_str (res_machine_type (resources j)) = None"
    and g: "truthy_int gpu_count = None"
    and fetch: "get_available_machine_types rem
        (self\<lparr>machine_type_prefix := res_machine_type (resources j)\<rparr>) = (Inr fetched, self1)"
    and a: "(n', m') \<in> set fetched" "job_cores \<le> guestCpus m'" "job_mem \<le> memoryMb m'"
  from select_machine_type_succeeds [OF a] obtain s sel where
    "select_machine_type job_cores job_mem None fetched = Inr (s, sel)" by blast
  with select_machine_type_falsy_prefix [OF p, of job_cores job_mem fetched]
  have sel: "select_machine_type job_cores job_mem (res_machine_type (resources j)) fetched
               = Inr (s, sel)"
    by simp
  from select_for_job_no_gpu [OF g fetch sel] obtain self2 where
    s2: "select_for_job rem job_cores job_mem gpu_count j self = (Inr (s, sel), self2)"
    by blast
  from select_machine_type_sound [OF sel]
  have "(s, sel) \<in> set fetched \<and> job_cores \<le> guestCpus sel \<and> job_mem \<le> memoryMb sel" .
  with s2
  show "\<exists>s sel self2. select_for_job rem job_cores job_mem gpu_count j self = (Inr (s, sel), self2)
          \<and> (s, sel) \<in> set fetched \<and> job_cores \<le> guestCpus sel \<and> job_mem \<le> memoryMb sel"
    by (intro exI [of _ s] exI [of _ sel] exI [of _ self2]) simp
qed

theorem selection_succeeds_witness:
  "(''B'', example_B) \<in> set example_catalog \<and> 2 \<le> guestCpus example_B
   \<and> 4096 \<le> memoryMb example_B \<and> truthy_str None = None
   \<and> select_machine_type 2 4096 None example_catalog = Inr (''A'', example_A)
   \<and> truthy_str (res_machine_type (resources small_job)) = None
   \<and> truthy_int (requested_gpu_count (resources small_job)) = None
   \<and> get_available_machine_types example_remote
        (example_executor\<lparr>machine_type_prefix := res_machine_type (resources small_job)\<rparr>) =
       (Inr example_catalog, example_executor)
   \<and> fst (select_for_job example_remote 2 4096 (requested_gpu_count (resources small_job))
             small_job example_executor) = Inr (''A'', example_A)
   \<and> (''A'', example_A) \<in> set example_catalog
   \<and> 2 \<le> guestCpus example_A \<and> 4096 \<le> memoryMb example_A"
proof -
  have fetch: "get_available_machine_types example_remote
        (example_executor\<lparr>machine_type_prefix := res_machine_type (resources small_job)\<rparr>) =
       (Inr example_catalog, example_executor)"
    using example_fetch by (simp add: small_job_def example_executor_def)
  have sel: "select_machine_type 2 4096 None example_catalog = Inr (''A'', example_A)"
    by (simp add: select_machine_type_def example_catalog_def example_A_def example_B_def)
  have gpu: "truthy_int (requested_gpu_count (resources small_job)) = None"
    by (simp add: requested_gpu_count_def small_job_def)
  have res: "truthy_str (res_machine_type (resources small_job)) = None"
    "res_machine_type (resources small_job) = None"
    by (simp_all add: small_job_def)
  have B: "(''B'', example_B) \<in> set example_catalog" "2 \<le> guestCpus example_B"
    "4096 \<le> memoryMb example_B" "(''A'', example_A) \<in> set example_catalog"
    "2 \<le> guestCpus example_A" "4096 \<le> memoryMb example_A"
    by (simp_all add: example_catalog_def example_B_def example_A_def)
  from selection_succeeds [where n = "''B''" and m = example_B and catalog = example_catalog
      and cores = 2 and mem_mb = 4096 and pfx = None and j = small_job
      and gpu_count = "requested_gpu_count (resources small_job)" and rem = example_remote
      and self = example_executor and fetched = example_catalog and ?self1.0 = example_executor
      and n' = "''B''" and m' = example_B and job_cores = 2 and job_mem = 4096]
    fetch gpu res B
  obtain s sel' self2 where s2:
    "select_for_job example_remote 2 4096 (requested_gpu_count (resources small_job))
       small_job example_executor = (Inr (s, sel'), self2)"
    by auto
  from sel res have sel': "select_machine_type 2 4096
      (res_machine_type (resources small_job)) example_catalog = Inr (''A'', example_A)"
    by simp
  from select_for_job_no_gpu [OF gpu fetch sel'] s2
  have "fst (select_for_job example_remote 2 4096 (requested_gpu_count (resources small_job))
             small_job example_executor) = Inr (''A'', example_A)" by auto
  with fetch sel gpu res B show ?thesis by simp
qed

text \<open>Claim C1 as stated fails. The catalog offers 8 CPUs (with 7372 MB) and 65536 MB (with
  2 CPUs): a job asking for 8 cores and 65536 MB is within both maxima, and the planning
  raises the error for unsatisfiable resources.\<close>

theorem planning_fails_within_maxima:
  "fst (get_available_machine_types split_remote example_executor) =
     Inr [(''n1-highcpu-8'', high_cpu), (''n1-highmem-2'', high_mem)]
   \<and> res_cores (resources big_job) = Some 8 \<and> res_mem_mb (resources big_job) = Some 65536
   \<and> res_machine_type (resources big_job) = None
   \<and> 8 \<le> max (guestCpus high_cpu) (guestCpus high_mem)
   \<and> 65536 \<le> max (memoryMb high_cpu) (memoryMb high_mem)
   \<and> fst (generate_job_resources split_remote big_job example_executor) =
       Inl (WorkflowError (ResourcesUnsatisfiable 65536 8 65536 8))"
  by (simp add: generate_job_resources_def select_for_job_def requested_gpu_count_def
      get_available_machine_types_def split_remote_def example_remote_def example_executor_def
      retry_request_default_def retry_request.simps zone_in_regions_def
      shared_machine_types_def high_cpu_def high_mem_def big_job_def debug_def
      select_machine_type_def Let_def)

text \<open>
  Claim C10, as the code has it. Planning leaves every attribute of the executor as it
  is, except the debug log, the log of sleeps, \<^verbatim>\<open>machine_type_prefix\<close> (set to the
  job's \<^verbatim>\<open>machine_type\<close> once memory and disk are known) and, for a job that asks for
  GPUs, the default resource \<^verbatim>\<open>nvidia_gpu\<close> (set to the count) and
  \<^verbatim>\<open>_machine_type_prefix\<close>. The plan does not depend on the values that
  \<^verbatim>\<open>machine_type_prefix\<close> and the default resources had before.
\<close>

theorem planning_frame:
  "generate_job_resources rem j self = (r, self') \<longrightarrow>
     same_outside_planning self self'
     \<and> (truthy_int (requested_gpu_count (resources j)) = None \<longrightarrow>
          default_resources self' = default_resources self
          \<and> private_machine_type_prefix self' = private_machine_type_prefix self)
     \<and> (res_mem_mb (resources j) \<noteq> None \<longrightarrow> res_disk_mb (resources j) \<noteq> None \<longrightarrow>
          machine_type_prefix self' = res_machine_type (resources j)
          \<and> default_resources self' =
              (case truthy_int (requested_gpu_count (resources j)) of
                 None \<Rightarrow> default_resources self
               | Some n \<Rightarrow> (default_resources self)(''nvidia_gpu'' \<mapsto> n)))
     \<and> fst (generate_job_resources rem j
              (self\<lparr>machine_type_prefix := p, default_resources := d\<rparr>)) = r"
proof
  assume gen: "generate_job_resources rem j self = (r, self')"
  from generate_job_resources_independent [where rem = rem and j = j and self = self
      and p = p and d = d] gen
  have "fst (generate_job_resources rem j
              (self\<lparr>machine_type_prefix := p, default_resources := d\<rparr>)) = r" by simp
  with generate_job_resources_frame [OF gen]
  show "same_outside_planning self self'
     \<and> (truthy_int (requested_gpu_count (resources j)) = None \<longrightarrow>
          default_resources self' = default_resources self
          \<and> private_machine_type_prefix self' = private_machine_type_prefix self)
     \<and> (res_mem_mb (resources j) \<noteq> None \<longrightarrow> res_disk_mb (resources j) \<noteq> None \<longrightarrow>
          machine_type_prefix self' = res_machine_type (resources j)
          \<and> default_resources self' =
              (case truthy_int (requested_gpu_count (resources j)) of
                 None \<Rightarrow> default_resources self
               | Some n \<Rightarrow> (default_resources self)(''nvidia_gpu'' \<mapsto> n)))
     \<and> fst (generate_job_resources rem j
              (self\<lparr>machine_type_prefix := p, default_resources := d\<rparr>)) = r"
    by simp
qed

lemma gpu_job_plan:
  "generate_job_resources gpu_remote gpu_job
     (example_executor\<lparr>private_machine_type_prefix := Some None\<rparr>) =
     (Inl (AttributeError ''preemptible_rules''),
      example_executor
        \<lparr>private_machine_type_prefix := Some (Some ''n1''),
         default_resources := [''nvidia_gpu'' \<mapsto> 1],
         debug_log := [GpuRequest 1, MachineTypesFound 2 [''us-east1''],
                       SelectedMachineType ''A'' ''2 vCPUs, 4 GB RAM'']\<rparr>)"
  by (simp add: generate_job_resources_def select_for_job_def requested_gpu_count_def
      add_gpu_def get_available_machine_types_def gpu_remote_def example_remote_def
      example_executor_def retry_request_default_def retry_request.simps zone_in_regions_def
      shared_machine_types_def example_A_def example_B_def gpu_job_def debug_def
      select_machine_type_def job_preemptible_def make_virtual_machine_def finish_plan_def
      get_accelerator_def endswith_def suffix_to_prefix Let_def)

theorem planning_frame_witness:
  "fst (generate_job_resources gpu_remote gpu_job
          (example_executor\<lparr>private_machine_type_prefix := Some None\<rparr>)) =
     Inl (AttributeError ''preemptible_rules'')
   \<and> res_mem_mb (resources gpu_job) \<noteq> None \<and> res_disk_mb (resources gpu_job) \<noteq> None
   \<and> truthy_int (requested_gpu_count (resources gpu_job)) = Some 1
   \<and> same_outside_planning (example_executor\<lparr>private_machine_type_prefix := Some None\<rparr>)
        (snd (generate_job_resources gpu_remote gpu_job
                (example_executor\<lparr>private_machine_type_prefix := Some None\<rparr>)))
   \<and> default_resources (snd (generate_job_resources gpu_remote gpu_job
        (example_executor\<lparr>private_machine_type_prefix := Some None\<rparr>))) ''nvidia_gpu'' = Some 1"
  using planning_frame [where rem = gpu_remote and j = gpu_job
      and self = "example_executor\<lparr>private_machine_type_prefix := Some None\<rparr>"
      and r = "fst (generate_job_resources gpu_remote gpu_job
          (example_executor\<lparr>private_machine_type_prefix := Some None\<rparr>))"
      and self' = "snd (generate_job_resources gpu_remote gpu_job
          (example_executor\<lparr>private_machine_type_prefix := Some None\<rparr>))"
      and p = None and d = Map.empty]
proof -
  have res: "res_mem_mb (resources gpu_job) \<noteq> None" "res_disk_mb (resources gpu_job) \<noteq> None"
    "truthy_int (requested_gpu_count (resources gpu_job)) = Some 1"
    by (simp_all add: requested_gpu_count_def gpu_job_def)
  assume "generate_job_resources gpu_remote gpu_job
            (example_executor\<lparr>private_machine_type_prefix := Some None\<rparr>) =
          (fst (generate_job_resources gpu_remote gpu_job
                  (example_executor\<lparr>private_machine_type_prefix := Some None\<rparr>)),
           snd (generate_job_resources gpu_remote gpu_job
                  (example_executor\<lparr>private_machine_type_prefix := Some None\<rparr>))) \<longrightarrow>
     same_outside_planning (example_executor\<lparr>private_machine_type_prefix := Some None\<rparr>)
       (snd (generate_job_resources gpu_remote gpu_job
               (example_executor\<lparr>private_machine_type_prefix := Some None\<rparr>)))
     \<and> (truthy_int (requested_gpu_count (resources gpu_job)) = None \<longrightarrow>
          default_resources (snd (generate_job_resources gpu_remote gpu_job
               (example_executor\<lparr>private_machine_type_prefix := Some None\<rparr>))) =
            default_resources (example_executor\<lparr>private_machine_type_prefix := Some None\<rparr>)
          \<and> private_machine_type_prefix (snd (generate_job_resources gpu_remote gpu_job
               (example_executor\<lparr>private_machine_type_prefix := Some None\<rparr>))) =
            private_machine_type_prefix (example_executor\<lparr>private_machine_type_prefix := Some None\<rparr>))
     \<and> (res_mem_mb (resources gpu_job) \<noteq> None \<longrightarrow> res_disk_mb (resources gpu_job) \<noteq> None \<longrightarrow>
          machine_type_prefix (snd (generate_job_resources gpu_remote gpu_job
               (example_executor\<lparr>private_machine_type_prefix := Some None\<rparr>))) =
            res_machine_type (resources gpu_job)
          \<and> default_resources (snd (generate_job_resources gpu_remote gpu_job
               (example_executor\<lparr>private_machine_type_prefix := Some None\<rparr>))) =
              (case truthy_int (requested_gpu_count (resources gpu_job)) of
                 None \<Rightarrow> default_resources (example_executor\<lparr>private_machine_type_prefix := Some None\<rparr>)
               | Some n \<Rightarrow> (default_resources (example_executor\<lparr>private_machine_type_prefix := Some None\<rparr>))(''nvidia_gpu'' \<mapsto> n)))
     \<and> fst (generate_job_resources gpu_remote gpu_job
              (example_executor\<lparr>private_machine_type_prefix := Some None,
                 machine_type_prefix := None, default_resources := Map.empty\<rparr>)) =
         fst (generate_job_resources gpu_remote gpu_job
                  (example_executor\<lparr>private_machine_type_prefix := Some None\<rparr>))"
  with res show ?thesis by (simp add: gpu_job_plan same_outside_planning_def)
qed

text \<open>Claim C10 as stated fails: planning a job with one GPU sets the default resource
  \<^verbatim>\<open>nvidia_gpu\<close>, whether \<^verbatim>\<open>_machine_type_prefix\<close> exists (then it becomes \<^verbatim>\<open>n1\<close> and a
  machine type is selected) or not (then \<^verbatim>\<open>AttributeError\<close> is raised after the
  assignment).\<close>

theorem planning_gpu_changes_state:
  "default_resources example_executor ''nvidia_gpu'' = None
   \<and> fst (generate_job_resources gpu_remote gpu_job example_executor) =
       Inl (AttributeError ''_machine_type_prefix'')
   \<and> default_resources (snd (generate_job_resources gpu_remote gpu_job example_executor))
        ''nvidia_gpu'' = Some 1
   \<and> default_resources (snd (generate_job_resources gpu_remote gpu_job
        (example_executor\<lparr>private_machine_type_prefix := Some None\<rparr>))) ''nvidia_gpu'' = Some 1
   \<and> private_machine_type_prefix (snd (generate_job_resources gpu_remote gpu_job
        (example_executor\<lparr>private_machine_type_prefix := Some None\<rparr>))) = Some (Some ''n1'')"
proof -
  have "generate_job_resources gpu_remote gpu_job example_executor =
          (Inl (AttributeError ''_machine_type_prefix''),
           example_executor\<lparr>default_resources := [''nvidia_gpu'' \<mapsto> 1],
                            debug_log := [GpuRequest 1]\<rparr>)"
    by (simp add: generate_job_resources_def select_for_job_def requested_gpu_count_def
        add_gpu_def example_executor_def gpu_job_def debug_def Let_def)
  then show ?thesis
    by (simp add: gpu_job_plan) (simp add: example_executor_def)
qed

section \<open>Further properties\<close>

text \<open>What the loops of \<^verbatim>\<open>get_available_machine_types\<close> compute: with zones of distinct
  names, the machine types of the last zone whose names are, in every other zone, among
  the names that pass the two filters.\<close>

lemma to_remove_step:
  "set (foldl (\<lambda>acc k. if k \<in> S then acc else List.insert k acc) acc keys) =
     set acc \<union> {k \<in> set keys. k \<notin> S}"
  by (induction keys arbitrary: acc) auto

lemma collect_to_remove_set:
  "set (collect_to_remove others keys acc) =
     set acc \<union> {k \<in> set keys. \<exists>(z, types) \<in> set others. k \<notin> set (zone_names types)}"
proof (induction others arbitrary: acc)
  case Nil
  then show ?case by simp
next
  case (Cons a others)
  obtain z types where a: "a = (z, types)" by (cases a)
  show ?case
    unfolding a collect_to_remove.simps Cons.IH to_remove_step by auto
qed

lemma delete_all:
  "foldl (\<lambda>d k. AList.delete k d) d ks = filter (\<lambda>(n, m). n \<notin> set ks) d"
proof (induction ks arbitrary: d)
  case Nil
  then show ?case by simp
next
  case (Cons k ks)
  have "filter (\<lambda>(n, m). n \<notin> set ks) (AList.delete k d) = filter (\<lambda>(n, m). n \<notin> set (k # ks)) d"
    by (induction d) (auto simp: AList.delete_eq)
  with Cons.IH [of "AList.delete k d"] show ?case by simp
qed

lemma shared_machine_types_filtered:
  assumes base: "map_of lookup (last zones) = Some base" and zones: "zones \<noteq> []"
  shows "shared_machine_types zones lookup =
           Inr (filter (\<lambda>(n, m). \<forall>(z, types) \<in> set lookup.
                                   z \<noteq> last zones \<longrightarrow> n \<in> set (zone_names types))
                  (foldl (\<lambda>d mt. AList.update (mt_name mt) mt d) [] base))"
proof -
  let ?mts = "foldl (\<lambda>d mt. AList.update (mt_name mt) mt d) [] base"
  let ?others = "AList.delete (last zones) lookup"
  let ?rm = "collect_to_remove ?others (map fst ?mts) []"
  have others: "set ?others = {(z, types). (z, types) \<in> set lookup \<and> z \<noteq> last zones}"
    by (auto simp: AList.delete_eq)
  have "filter (\<lambda>(n, m). n \<notin> set ?rm) ?mts =
        filter (\<lambda>(n, m). \<forall>(z, types) \<in> set lookup.
                             z \<noteq> last zones \<longrightarrow> n \<in> set (zone_names types)) ?mts"
  proof (rule filter_cong [OF refl])
    fix x assume x: "x \<in> set ?mts"
    obtain n m where nm: "x = (n, m)" by (cases x)
    with x have "n \<in> set (map fst ?mts)" by force
    then have "n \<notin> set ?rm \<longleftrightarrow>
        (\<forall>(z, types) \<in> set lookup. z \<noteq> last zones \<longrightarrow> n \<in> set (zone_names types))"
      unfolding collect_to_remove_set others by auto
    with nm show "(case x of (n, m) \<Rightarrow> n \<notin> set ?rm) =
        (case x of (n, m) \<Rightarrow> \<forall>(z, types) \<in> set lookup.
                             z \<noteq> last zones \<longrightarrow> n \<in> set (zone_names types))"
      by simp
  qed
  with base zones show ?thesis
    by (simp add: shared_machine_types_def Let_def delete_all)
qed

text \<open>So with a second zone, no returned machine type is a \<^verbatim>\<open>micro\<close>, \<^verbatim>\<open>e2\<close> or \<^verbatim>\<open>m1\<close>
  one, and each is offered by that zone too.\<close>

lemma shared_machine_types_excludes:
  assumes "shared_machine_types zones lookup = Inr result" and "(n, m) \<in> set result"
    and "(z, types) \<in> set lookup" and "z \<noteq> last zones"
  shows "\<not> contains ''micro'' n \<and> \<not> prefix ''e2'' n \<and> \<not> prefix ''m1'' n
         \<and> n \<in> mt_name ` set types"
proof -
  from assms(1) have zones: "zones \<noteq> []"
    by (auto simp: shared_machine_types_def split: if_splits)
  from assms(1) zones obtain base where base: "map_of lookup (last zones) = Some base"
    by (auto simp: shared_machine_types_def split: option.splits)
  from shared_machine_types_filtered [OF base zones] assms(1,2)
  have "\<forall>(z, types) \<in> set lookup. z \<noteq> last zones \<longrightarrow> n \<in> set (zone_names types)"
    by auto
  with assms(3,4) have "n \<in> set (zone_names types)" by auto
  then show ?thesis by (auto simp: zone_names_def)
qed

text \<open>The handler of \<^verbatim>\<open>HttpError\<close> in \<^verbatim>\<open>check_active_jobs\<close> is never entered, whatever
  attributes the job object has: the retry wrapper raises \<^verbatim>\<open>WorkflowError\<close> only, so no job
  is reported through the error callback.\<close>

lemma query_status_no_error_callback:
  "fst (query_status rem j st self) \<noteq> Continue [ErrorCallback i]"
proof (cases "jobname j")
  case None
  then show ?thesis by (simp add: query_status_def)
next
  case name: (Some name)
  show ?thesis
  proof (cases "jobid j")
    case None
    with name show ?thesis by (simp add: query_status_def)
  next
    case (Some i')
    obtain r sl where rr: "retry_request_default (operations_get rem name)
               (slept (debug (CheckingStatus i') self)) = (r, sl)"
      by (cases "retry_request_default (operations_get rem name)
               (slept (debug (CheckingStatus i') self))")
    show ?thesis
    proof (cases r)
      case (Inr st')
      with rr name Some show ?thesis by (simp add: query_status_def)
    next
      case (Inl ex)
      with rr retry_request_raises_wrapped [of "operations_get rem name" 2 3 _ ex sl]
      obtain cause where "ex = WorkflowError (Wrapped cause)"
        by (auto simp: retry_request_default_def)
      with rr Inl name Some show ?thesis by (simp add: query_status_def)
    qed
  qed
qed

text \<open>What \<^verbatim>\<open>shutdown\<close> does: with retention it only logs; without, it deletes exactly the
  blobs whose names are the tracked local paths.\<close>

lemma shutdown_with_retention:
  "save_storage_cache self \<Longrightarrow>
     shutdown self = self\<lparr>debug_log := debug_log self @ [SkippingCleanup]\<rparr>"
  by (simp add: shutdown_def debug_def)

lemma delete_packages_bucket:
  "bucket (delete_packages packages self) name =
     (if name \<in> set packages then None else bucket self name)"
  by (induction packages arbitrary: self) (auto simp: debug_def split: option.splits)

lemma shutdown_without_retention:
  "\<not> save_storage_cache self \<Longrightarrow>
     bucket (shutdown self) name =
       (if name \<in> set (build_packages self) then None else bucket self name)"
  by (simp add: shutdown_def delete_packages_bucket)

text \<open>A source file whose real path does not even contain the working directory is
  refused: the first such file is named, and the executor stays as it is.\<close>

lemma first_outside_Some:
  "first_outside rp wd sources = Some filename \<Longrightarrow>
     filename \<in> set sources \<and> \<not> contains wd (rp filename)"
  by (induction sources) (auto split: if_splits)

lemma first_outside_None:
  "first_outside rp wd sources = None \<longleftrightarrow> (\<forall>f \<in> set sources. contains wd (rp f))"
  by (induction sources) auto

lemma generate_build_source_package_outside:
  "f \<in> set (workflow_sources self) \<Longrightarrow> \<not> contains (workdir self) (realpath pf f) \<Longrightarrow>
     \<exists>filename. filename \<in> set (workflow_sources self)
        \<and> \<not> contains (workdir self) (realpath pf filename)
        \<and> generate_build_source_package pf tmpname self =
            (Inl (WorkflowError (SourceOutsideWorkdir (workdir self) filename)), self)"
proof -
  assume "f \<in> set (workflow_sources self)" "\<not> contains (workdir self) (realpath pf f)"
  then have "first_outside (realpath pf) (workdir self) (workflow_sources self) \<noteq> None"
    by (auto simp: first_outside_None)
  then obtain filename where
    fo: "first_outside (realpath pf) (workdir self) (workflow_sources self) = Some filename"
    by auto
  from first_outside_Some [OF fo] fo show ?thesis
    by (auto simp: generate_build_source_package_def)
qed

end
